theory Spec2Isabelle
  imports Complex_Main
begin

section \<open>Data model of detect_fire.py\<close>

text \<open>
  Timestamps are the integer seconds that the archive's file names carry. A reading of the
  wall clock (\<open>time.time()\<close>) is a finite float, hence a rational number, and Python
  compares a float with an integer exactly, so clock readings are rationals here. Scores
  are rationals as well (a NaN score is outside this model).

  A polygon is the Python value that the code passes around: a list of \<open>[lat, long]\<close>
  vertices, or \<open>None\<close>. The coordinate type stays a parameter.
\<close>

type_synonym 'c coords = "('c \<times> 'c) list"
type_synonym 'c poly = "'c coords option"

text \<open>
  The part of the shapely library that the code calls. The library is a collaborator, so its
  operations are parameters of the model: \<open>Polygon\<close> and \<open>Point\<close> are the two
  constructors. \<open>exterior_coords g\<close> stands for the pairs
  \<open>[g.exterior.coords.xy[0][i], g.exterior.coords.xy[1][i]]\<close> in order; it is \<open>None\<close>
  for a geometry without the attribute \<open>exterior\<close>, which is every geometry but a single
  polygon (an intersection in several parts is a MultiPolygon or a GeometryCollection), and
  reading the attribute then raises AttributeError. \<open>centroid_xy g\<close> stands for the pairs
  of \<open>zip(*g.centroid.xy)\<close>, none for an empty geometry.
\<close>

record ('c, 'g) shapely =
  Polygon :: "'c poly \<Rightarrow> 'g"
  Point :: "'c \<Rightarrow> 'c \<Rightarrow> 'g"
  intersects :: "'g \<Rightarrow> 'g \<Rightarrow> bool"
  intersection :: "'g \<Rightarrow> 'g \<Rightarrow> 'g"
  area :: "'g \<Rightarrow> rat"
  exterior_coords :: "'g \<Rightarrow> 'c coords option"
  centroid_xy :: "'g \<Rightarrow> ('c \<times> 'c) list"

text \<open>
  What a call can raise: the \<open>assert\<close> of \<open>enqueueFireUpdate\<close>; the unpacking of the
  pair \<open>(None, None)\<close> that \<open>updateMovie\<close> returns into three variables; an index into an
  empty list; the attribute \<open>exterior\<close> of a geometry that has none; \<open>json.loads\<close> of a
  text that is not JSON; the iteration over \<open>None\<close>.
\<close>

datatype error =
  AssertionError | ValueError | IndexError | AttributeError | JSONDecodeError | TypeError

text \<open>
  A row of the \<open>detections\<close> table (the columns that the engine reads or writes). The table
  holds the polygon and the source polygons as text, written with \<open>str\<close>; the row of the
  model holds the values that were written, and \<open>json_loads_polygon\<close> and
  \<open>json_loads_polygons\<close> below read them as \<open>json.loads\<close> reads their text.
\<close>

record 'c detection =
  CameraName :: string
  Timestamp :: int
  AdjScore :: rat
  ImageID :: string
  CroppedID :: string
  MapID :: string
  polygon :: "'c poly"
  sourcePolygons :: "'c poly list"
  IsProto :: nat
  WeatherScore :: rat
  SortId :: int
  FireHeading :: rat
  AngularWidth :: rat

text \<open>A row of the \<open>probables\<close> table.\<close>

record probable =
  pCameraName :: string
  pHeading :: int
  pTimestamp :: int
  pProtoNum :: nat

text \<open>
  The data base: the three tables the engine writes, and the \<open>sources\<close> table as pairs
  (camera name, location id), looked up by name.
\<close>

record 'c db =
  detections :: "'c detection list"
  alerts :: "'c detection list"
  probables :: "probable list"
  sources :: "(string \<times> string) list"

text \<open>The segment dictionary that the detection policy returns.\<close>

record fireSegment =
  score :: rat
  segAdjScore :: "rat option"
  MinX :: int
  MinY :: int
  MaxX :: int
  MaxY :: int
  weatherScore :: "rat option"

text \<open>An entry of the queue of deferred updates (\<open>constants['fireUpdateQueue']\<close>).\<close>

record fireEvent =
  cameraID :: string
  cameraHeading :: int
  timestamp :: int
  finalTimestamp :: int
  fireSegment :: fireSegment

definition POST_DETECTION_UPDATE_MINS :: int where
  "POST_DETECTION_UPDATE_MINS = 7"

text \<open>Python's truth value of a polygon: \<open>None\<close> and the empty list are false.\<close>

definition truthy :: "'c poly \<Rightarrow> bool" where
  "truthy p = (case p of None \<Rightarrow> False | Some vs \<Rightarrow> vs \<noteq> [])"

section \<open>Prototype sources\<close>

text \<open>
  The attributes of the function object \<open>isProto\<close>, as \<open>main\<close> leaves them after its
  call \<open>isProto(None, sources=cameras, protoNum=protoNum)\<close>: the cameras as pairs of name
  and type (the dictionary is filled in this order, so a later pair of the same name wins),
  the production types, and the number of the prototype model (0 for the official model).
\<close>

record protoState =
  sourcesDict :: "(string \<times> string) list"
  prodTypesArr :: "string list"
  protoNum :: nat

text \<open>
  \<open>isProto(cameraID)\<close> returns the prototype number when that is nonzero, and the boolean
  \<open>not isProd\<close> otherwise: a sum of the two.
\<close>

definition isProto :: "protoState \<Rightarrow> string \<Rightarrow> nat + bool" where
  "isProto ps cam =
     (if protoNum ps \<noteq> 0 then Inl (protoNum ps)
      else
        let ty = (case map_of (rev (sourcesDict ps)) cam of None \<Rightarrow> [] | Some t \<Rightarrow> t);
            isProd = (ty \<noteq> [] \<and> prodTypesArr ps \<noteq> [] \<and> ty \<in> set (prodTypesArr ps))
        in Inr (\<not> isProd))"

text \<open>The truth value of that result, and \<open>int\<close> of it.\<close>

definition isProto_bool :: "nat + bool \<Rightarrow> bool" where
  "isProto_bool v = (case v of Inl n \<Rightarrow> n \<noteq> 0 | Inr b \<Rightarrow> b)"

definition isProto_int :: "nat + bool \<Rightarrow> nat" where
  "isProto_int v = (case v of Inl n \<Rightarrow> n | Inr b \<Rightarrow> (if b then 1 else 0))"

section \<open>Deduplication\<close>

text \<open>
  \<open>isDuplicateProbables\<close>: the query
  \<open>CameraName='%s' and Heading=%s and timestamp > %s and timestamp < %s and ProtoNum=%s\<close>
  with the bounds \<open>timestamp - 60*60\<close> and \<open>timestamp\<close>, then \<open>len(dbResult) > 0\<close>.
\<close>

definition queryProbables :: "'c db \<Rightarrow> string \<Rightarrow> int \<Rightarrow> int \<Rightarrow> nat \<Rightarrow> probable list" where
  "queryProbables d cam heading ts pn =
     filter (\<lambda>r. pCameraName r = cam \<and> pHeading r = heading \<and> pTimestamp r > ts - 60 * 60
                 \<and> pTimestamp r < ts \<and> pProtoNum r = pn) (probables d)"

definition isDuplicateProbables :: "'c db \<Rightarrow> string \<Rightarrow> int \<Rightarrow> int \<Rightarrow> nat \<Rightarrow> bool" where
  "isDuplicateProbables d cam heading ts pn =
     (if length (queryProbables d cam heading ts pn) > 0 then True else False)"

text \<open>\<open>recordProbables\<close>, as far as the data base goes (nothing is written when stateless).\<close>

definition recordProbables :: "'c db \<Rightarrow> string \<Rightarrow> int \<Rightarrow> int \<Rightarrow> bool \<Rightarrow> nat \<Rightarrow> 'c db" where
  "recordProbables d cam heading ts stateless pn =
     (if \<not> stateless
      then d\<lparr>probables := probables d @
             [\<lparr>pCameraName = cam, pHeading = heading, pTimestamp = ts, pProtoNum = pn\<rparr>]\<rparr>
      else d)"

text \<open>
  \<open>getRecentDetections\<close>: \<open>SELECT * FROM detections where timestamp > %s order by sortid desc\<close>
  with the bound \<open>timestamp - 15*60\<close>. Rows of equal sort id stay in table order.
\<close>

definition getRecentDetections :: "'c db \<Rightarrow> int \<Rightarrow> 'c detection list" where
  "getRecentDetections d ts =
     sort_key (\<lambda>r. - SortId r) (filter (\<lambda>r. Timestamp r > ts - 15 * 60) (detections d))"

text \<open>
  The sub-query of \<open>isDuplicateDetection\<close>:
  \<open>CameraName in (SELECT name FROM sources WHERE locationid =
     (SELECT locationid FROM sources WHERE name='%s'))\<close>.
\<close>

definition sameLocation :: "(string \<times> string) list \<Rightarrow> string \<Rightarrow> string \<Rightarrow> bool" where
  "sameLocation srcs name cam =
     (case map_of srcs cam of None \<Rightarrow> False | Some loc \<Rightarrow> (name, loc) \<in> set srcs)"

definition queryConfirmed :: "'c db \<Rightarrow> string \<Rightarrow> int \<Rightarrow> 'c detection list" where
  "queryConfirmed d cam ts =
     filter (\<lambda>r. Timestamp r > ts - 2 * 60 * 60 \<and> Timestamp r < ts
                 \<and> sameLocation (sources d) (CameraName r) cam) (detections d)"

text \<open>
  The loop of \<open>isDuplicateDetection\<close> over the rows of the query.
  \<open>img_archive.intersectsAngleRange\<close> is a parameter (\<open>ov\<close>).
\<close>

fun dupLoop :: "(rat \<Rightarrow> rat \<Rightarrow> rat \<Rightarrow> rat \<Rightarrow> bool) \<Rightarrow> 'c detection list \<Rightarrow> rat \<Rightarrow> rat \<Rightarrow> nat \<Rightarrow> bool" where
  "dupLoop ov [] fireHeading rangeAngle pn = False"
| "dupLoop ov (entry # rest) fireHeading rangeAngle pn =
     (if pn = 0 \<and> IsProto entry > 1 then dupLoop ov rest fireHeading rangeAngle pn
      else if pn > 0 \<and> pn \<noteq> IsProto entry then dupLoop ov rest fireHeading rangeAngle pn
      else if ov (FireHeading entry) (AngularWidth entry) fireHeading rangeAngle then True
      else dupLoop ov rest fireHeading rangeAngle pn)"

definition isDuplicateDetection ::
  "(rat \<Rightarrow> rat \<Rightarrow> rat \<Rightarrow> rat \<Rightarrow> bool) \<Rightarrow> 'c db \<Rightarrow> string \<Rightarrow> rat \<Rightarrow> rat \<Rightarrow> int \<Rightarrow> nat \<Rightarrow> bool" where
  "isDuplicateDetection ov d cam fireHeading rangeAngle ts pn =
     (let dbResult = queryConfirmed d cam ts in
      if length dbResult = 0 then False
      else dupLoop ov dbResult fireHeading rangeAngle pn)"

section \<open>Geometry\<close>

text \<open>
  \<open>json.loads\<close> of the text that \<open>str\<close> has written. A list of vertices is written as
  \<open>[[x, y], ...]\<close>, which is JSON; \<open>None\<close> is written as \<open>None\<close>, which is not, neither
  on its own nor inside the list of the source polygons.
\<close>

definition json_loads_polygon :: "'c poly \<Rightarrow> error + 'c poly" where
  "json_loads_polygon stored = (case stored of None \<Rightarrow> Inl JSONDecodeError | Some vs \<Rightarrow> Inr (Some vs))"

definition json_loads_polygons :: "'c poly list \<Rightarrow> error + 'c poly list" where
  "json_loads_polygons stored = (if None \<in> set stored then Inl JSONDecodeError else Inr stored)"

definition getPolygonIntersection :: "('c, 'g) shapely \<Rightarrow> 'c poly \<Rightarrow> 'c poly \<Rightarrow> error + 'c poly" where
  "getPolygonIntersection G coords1 coords2 =
     (let poly1 = Polygon G coords1; poly2 = Polygon G coords2 in
      if \<not> intersects G poly1 poly2 then Inr None
      else
        let intPoly = intersection G poly1 poly2 in
        if area G intPoly = 0 then Inr None
        else (case exterior_coords G intPoly of
                None \<Rightarrow> Inl AttributeError
              | Some vs \<Rightarrow> Inr (Some vs)))"

text \<open>
  \<open>intersectLand\<close>; the list of the vertices of the coast line is a parameter
  (\<open>landVertices\<close>), since its entries are floating point literals.
\<close>

definition intersectLand :: "('c, 'g) shapely \<Rightarrow> 'c coords \<Rightarrow> 'c poly \<Rightarrow> error + 'c poly" where
  "intersectLand G landVertices triangle = getPolygonIntersection G triangle (Some landVertices)"

text \<open>
  The loop of \<open>intersectRecentDetections\<close>; falling off its end returns \<open>None\<close>. The
  source polygons of a row are read only when the row matches.
\<close>

fun scanDetections ::
  "('c, 'g) shapely \<Rightarrow> 'c poly \<Rightarrow> 'c detection list \<Rightarrow> error + ('c poly \<times> 'c poly list) option" where
  "scanDetections G triangle [] = Inr None"
| "scanDetections G triangle (alert # rest) =
     (case json_loads_polygon (polygon alert) of
        Inl e \<Rightarrow> Inl e
      | Inr alertCoords \<Rightarrow>
          (case getPolygonIntersection G triangle alertCoords of
             Inl e \<Rightarrow> Inl e
           | Inr isect \<Rightarrow>
               if truthy isect then
                 (case json_loads_polygons (sourcePolygons alert) of
                    Inl e \<Rightarrow> Inl e
                  | Inr srcPolys \<Rightarrow> Inr (Some (isect, srcPolys)))
               else scanDetections G triangle rest))"

definition intersectRecentDetections ::
  "('c, 'g) shapely \<Rightarrow> 'c db \<Rightarrow> int \<Rightarrow> 'c poly \<Rightarrow> error + ('c poly \<times> 'c poly list) option" where
  "intersectRecentDetections G d ts triangle = scanDetections G triangle (getRecentDetections d ts)"

text \<open>\<open>getCentroid\<close>: the first pair of \<open>list(zip(*poly.centroid.xy))\<close>.\<close>

definition getCentroid :: "('c, 'g) shapely \<Rightarrow> 'c poly \<Rightarrow> error + ('c \<times> 'c)" where
  "getCentroid G polygonCoords =
     (case centroid_xy G (Polygon G polygonCoords) of
        [] \<Rightarrow> Inl IndexError
      | c # _ \<Rightarrow> Inr c)"

section \<open>Alert gating\<close>

text \<open>The loop of \<open>publishAlert\<close> over the prescribed burns (latitude, longitude).\<close>

fun burnLoop :: "('c, 'g) shapely \<Rightarrow> 'g \<Rightarrow> ('c \<times> 'c) list \<Rightarrow> bool" where
  "burnLoop G viewPolygon [] = True"
| "burnLoop G viewPolygon (burn # rest) =
     (let burnPoint = Point G (fst burn) (snd burn) in
      if intersects G viewPolygon burnPoint then False
      else burnLoop G viewPolygon rest)"

text \<open>
  The configuration that does not change during a run: the shapely library, the angle overlap
  test of \<open>img_archive\<close>, the state of \<open>isProto\<close>, \<open>settings.weatherThreshold\<close> and
  the coast line.
\<close>

record ('c, 'g) config =
  geo :: "('c, 'g) shapely"
  intersectsAngleRange :: "rat \<Rightarrow> rat \<Rightarrow> rat \<Rightarrow> rat \<Rightarrow> bool"
  proto :: protoState
  weatherThreshold :: rat
  landVertices :: "'c coords"

definition publishAlert ::
  "('c, 'g) config \<Rightarrow> 'c db \<Rightarrow> string \<Rightarrow> rat \<Rightarrow> rat \<Rightarrow> int \<Rightarrow> rat \<Rightarrow> 'c poly \<Rightarrow> ('c \<times> 'c) list \<Rightarrow> nat \<Rightarrow> bool" where
  "publishAlert C d cam fireHeading rangeAngle ts wScore cameraViewPoly rxBurns pn =
     (if isProto_bool (isProto (proto C) cam) then False
      else if wScore < weatherThreshold C then False
      else if isDuplicateDetection (intersectsAngleRange C) d cam fireHeading rangeAngle ts pn then False
      else burnLoop (geo C) (Polygon (geo C) cameraViewPoly) rxBurns)"

section \<open>The queue of deferred updates\<close>

text \<open>
  \<open>enqueueFireUpdate\<close>, on the queue alone; \<open>now\<close> is its reading of the clock.
  Python's \<open>sorted\<close> is stable, as \<open>sort_key\<close> is.
\<close>

definition enqueueFireUpdate ::
  "rat \<Rightarrow> fireEvent list \<Rightarrow> string \<Rightarrow> int \<Rightarrow> int \<Rightarrow> int \<Rightarrow> fireSegment \<Rightarrow> error + fireEvent list" where
  "enqueueFireUpdate now queue cam heading ts finalTs seg =
     (let filtered = filter (\<lambda>x. cameraID x = cam \<and> timestamp x = ts) queue in
      if length filtered \<noteq> 0 then Inl AssertionError
      else if now > of_int (ts + POST_DETECTION_UPDATE_MINS * 60) then Inr queue
      else Inr (sort_key finalTimestamp
                  (queue @ [\<lparr>cameraID = cam, cameraHeading = heading, timestamp = ts,
                             finalTimestamp = finalTs, fireSegment = seg\<rparr>])))"

text \<open>\<open>popFireUpdate\<close>: the popped entry, if any, and the queue that is left.\<close>

definition popFireUpdate :: "rat \<Rightarrow> fireEvent list \<Rightarrow> fireEvent option \<times> fireEvent list" where
  "popFireUpdate now queue =
     (case queue of
        [] \<Rightarrow> (None, queue)
      | fireEvent # rest \<Rightarrow>
          if now > of_int (finalTimestamp fireEvent + 60) then (Some fireEvent, rest)
          else (None, queue))"

section \<open>State and collaborators\<close>

text \<open>Messages that leave the system.\<close>

datatype notification =
    Pubsub string int string
  | Email string int
  | Sms string

text \<open>Calls to the image archive that the processing of a deferred update makes.\<close>

datatype archiveCall =
    CheckNewImage string int int
  | UpdateMovie string int

record 'c state =
  dbase :: "'c db"
  fireUpdateQueue :: "fireEvent list"
  outbox :: "notification list"
  archiveCalls :: "archiveCall list"
  ignoreCounter :: "(string \<times> rat) list"

text \<open>
  What the collaborators answer during one call of \<open>fireDetected\<close> or of
  \<open>processEnqueuedUpdates\<close>: the readings of the clock; the images of the archive (by
  their unix times); the results of the heading computation and of the trigonometry of
  \<open>getTriangleVertices\<close>; the weather model, if one is configured, as a function of the
  image score and the number of source polygons, and whether the weather data are there;
  the burn feed; for each map file of the camera with a valid size, the rectangle of the map
  and the URL that its annotated copy gets; the results of the generators of images and
  movies; the public URL of a file.
\<close>

record 'c collab =
  nowPop :: rat
  nowSortId :: rat
  nowEnqueue :: rat
  newImages :: "int list"
  detectionImage :: bool
  movieImages :: "int list"
  movieID :: string
  headingRange :: "rat \<times> rat"
  ignoredHeading :: "rat option"
  triangle :: "'c coords"
  weatherModel :: "(rat \<Rightarrow> nat \<Rightarrow> rat) option"
  weatherData :: bool
  rxBurns :: "('c \<times> 'c) list"
  mapFiles :: "('c coords \<times> string) list"
  annotatedImages :: "string \<times> string \<times> int"
  getUrlForFile :: "string \<Rightarrow> string"

text \<open>Python's \<open>int\<close> of a float truncates towards zero.\<close>

definition py_int :: "rat \<Rightarrow> int" where
  "py_int r = (if r \<ge> 0 then \<lfloor>r\<rfloor> else \<lceil>r\<rceil>)"

text \<open>\<open>round(x, 4)\<close> on an exact value: to the nearest multiple of 1/10000, ties to even.\<close>

definition round4 :: "rat \<Rightarrow> rat" where
  "round4 x =
     (let y = x * 10000; f = \<lfloor>y\<rfloor>; d = y - of_int f in
      of_int (if d < 1 / 2 then f else if d > 1 / 2 then f + 1 else if even f then f else f + 1)
        / 10000)"

section \<open>Writing and reading the detections table\<close>

definition insertDetectionsDB ::
  "protoState \<Rightarrow> 'c db \<Rightarrow> string \<Rightarrow> int \<Rightarrow> string \<Rightarrow> string \<Rightarrow> string \<Rightarrow> fireSegment \<Rightarrow> 'c poly
     \<Rightarrow> 'c poly list \<Rightarrow> int \<Rightarrow> rat \<Rightarrow> rat \<Rightarrow> 'c detection" where
  "insertDetectionsDB ps d cam ts croppedUrl annotatedUrl mUrl seg poly srcPolys sortId fireHeading rangeAngle =
     \<lparr>CameraName = cam, Timestamp = ts,
      AdjScore = (case segAdjScore seg of Some a \<Rightarrow> a | None \<Rightarrow> score seg),
      ImageID = annotatedUrl, CroppedID = croppedUrl, MapID = mUrl,
      polygon = poly, sourcePolygons = srcPolys,
      IsProto = isProto_int (isProto ps cam),
      WeatherScore = (case weatherScore seg of Some w \<Rightarrow> w | None \<Rightarrow> 0),
      SortId = sortId, FireHeading = fireHeading, AngularWidth = rangeAngle\<rparr>"

text \<open>
  \<open>updateDetectionsDB\<close> and \<open>updateDBMovie\<close>: an SQL UPDATE of the rows of that camera
  and timestamp (none, when the SELECT before it finds none).
\<close>

definition updateDetectionsDB ::
  "'c detection list \<Rightarrow> string \<Rightarrow> int \<Rightarrow> string \<Rightarrow> string \<Rightarrow> string \<Rightarrow> 'c detection list" where
  "updateDetectionsDB rows cam ts croppedUrl annotatedUrl mUrl =
     map (\<lambda>r. if CameraName r = cam \<and> Timestamp r = ts
               then r\<lparr>CroppedID := croppedUrl, ImageID := annotatedUrl, MapID := mUrl\<rparr> else r) rows"

definition updateDBMovie :: "'c detection list \<Rightarrow> string \<Rightarrow> int \<Rightarrow> string \<Rightarrow> 'c detection list" where
  "updateDBMovie rows cam ts croppedUrl =
     map (\<lambda>r. if CameraName r = cam \<and> Timestamp r = ts then r\<lparr>CroppedID := croppedUrl\<rparr> else r) rows"

text \<open>
  \<open>queryDetections\<close>: the first row of that camera and timestamp, or \<open>None\<close>. Building
  the result parses the polygon and the source polygons of the row.
\<close>

definition queryDetections :: "'c db \<Rightarrow> string \<Rightarrow> int \<Rightarrow> error + 'c detection option" where
  "queryDetections d cam ts =
     (case filter (\<lambda>r. CameraName r = cam \<and> Timestamp r = ts) (detections d) of
        [] \<Rightarrow> Inr None
      | detectEntry # _ \<Rightarrow>
          (case json_loads_polygon (polygon detectEntry) of
             Inl e \<Rightarrow> Inl e
           | Inr poly \<Rightarrow>
               (case json_loads_polygons (sourcePolygons detectEntry) of
                  Inl e \<Rightarrow> Inl e
                | Inr srcPolys \<Rightarrow> Inr (Some detectEntry))))"

definition insertAlertsDB ::
  "protoState \<Rightarrow> 'c db \<Rightarrow> string \<Rightarrow> int \<Rightarrow> string \<Rightarrow> string \<Rightarrow> string \<Rightarrow> fireSegment \<Rightarrow> 'c poly
     \<Rightarrow> 'c poly list \<Rightarrow> int \<Rightarrow> rat \<Rightarrow> rat \<Rightarrow> 'c detection" where
  "insertAlertsDB ps d cam ts croppedUrl annotatedUrl mUrl seg poly srcPolys sortId fireHeading rangeAngle =
     \<lparr>CameraName = cam, Timestamp = ts,
      AdjScore = (case segAdjScore seg of Some a \<Rightarrow> a | None \<Rightarrow> score seg),
      ImageID = annotatedUrl, CroppedID = croppedUrl, MapID = mUrl,
      polygon = poly, sourcePolygons = srcPolys,
      IsProto = isProto_int (isProto ps cam),
      WeatherScore = (case weatherScore seg of Some w \<Rightarrow> w | None \<Rightarrow> 0),
      SortId = sortId, FireHeading = fireHeading, AngularWidth = rangeAngle\<rparr>"

section \<open>Accepting a detection\<close>

text \<open>
  Lines 1009 to 1015 of \<open>fireDetected\<close>: the polygon and the source polygons of the new
  event.
\<close>

definition consensusArea ::
  "('c, 'g) shapely \<Rightarrow> 'c db \<Rightarrow> int \<Rightarrow> 'c poly \<Rightarrow> error + ('c poly \<times> 'c poly list)" where
  "consensusArea G d ts cameraViewPoly =
     (case intersectRecentDetections G d ts cameraViewPoly of
        Inl e \<Rightarrow> Inl e
      | Inr (Some intersectionInfo) \<Rightarrow>
          Inr (fst intersectionInfo, snd intersectionInfo @ [cameraViewPoly])
      | Inr None \<Rightarrow> Inr (cameraViewPoly, [cameraViewPoly]))"

text \<open>
  \<open>checkWeatherInfo\<close>: 1 without a weather model; otherwise the centroid of the polygon is
  computed, and the result is 1 without the weather data and the prediction of the model
  from the image score and the number of source polygons with them.
\<close>

definition checkWeatherInfo ::
  "('c, 'g) shapely \<Rightarrow> 'c collab \<Rightarrow> fireSegment \<Rightarrow> 'c poly \<Rightarrow> 'c poly list \<Rightarrow> error + rat" where
  "checkWeatherInfo G W seg poly srcPolys =
     (case weatherModel W of
        None \<Rightarrow> Inr 1
      | Some predict \<Rightarrow>
          (case getCentroid G poly of
             Inl e \<Rightarrow> Inl e
           | Inr centroidLatLong \<Rightarrow>
               if \<not> weatherData W then Inr 1
               else
                 let numPolys = length srcPolys;
                     imgScore = (case segAdjScore seg of Some a \<Rightarrow> a | None \<Rightarrow> score seg)
                 in Inr (predict imgScore numPolys)))"

text \<open>
  \<open>drawPolyLatLong\<close>, as far as it can fail: the polygon is clipped to the rectangle of
  the map, and the loop over the result raises when the result is \<open>None\<close>.
\<close>

definition drawPolyLatLong :: "('c, 'g) shapely \<Rightarrow> 'c coords \<Rightarrow> 'c poly \<Rightarrow> error + unit" where
  "drawPolyLatLong G mapRectangle coords =
     (case getPolygonIntersection G coords (Some mapRectangle) of
        Inl e \<Rightarrow> Inl e
      | Inr None \<Rightarrow> Inl TypeError
      | Inr (Some newCoords) \<Rightarrow> Inr ())"

text \<open>The first loop of \<open>genAnnotatedMap\<close>, over the source polygons.\<close>

fun drawSources :: "('c, 'g) shapely \<Rightarrow> 'c coords \<Rightarrow> 'c poly list \<Rightarrow> error + unit" where
  "drawSources G mapRectangle [] = Inr ()"
| "drawSources G mapRectangle (sourcePolygon # rest) =
     (case drawPolyLatLong G mapRectangle sourcePolygon of
        Inl e \<Rightarrow> Inl e
      | Inr _ \<Rightarrow> drawSources G mapRectangle rest)"

text \<open>
  \<open>genAnnotatedMap\<close> for a map of valid size, as far as it can fail: the source polygons
  are drawn, then the polygon itself when there are several sources, and the map is cropped
  around the centroid of the polygon (\<open>cropCentered\<close>).
\<close>

definition genAnnotatedMap ::
  "('c, 'g) shapely \<Rightarrow> 'c coords \<Rightarrow> 'c poly \<Rightarrow> 'c poly list \<Rightarrow> error + unit" where
  "genAnnotatedMap G mapRectangle poly srcPolys =
     (case drawSources G mapRectangle srcPolys of
        Inl e \<Rightarrow> Inl e
      | Inr _ \<Rightarrow>
          (case (if length srcPolys > 1 then drawPolyLatLong G mapRectangle poly else Inr ()) of
             Inl e \<Rightarrow> Inl e
           | Inr _ \<Rightarrow>
               (case getCentroid G poly of
                  Inl e \<Rightarrow> Inl e
                | Inr centerLatLong \<Rightarrow> Inr ())))"

text \<open>\<open>genAnnotatedMaps\<close>: the URLs of the annotated maps, in the order of the map files.\<close>

fun genAnnotatedMapsLoop ::
  "('c, 'g) shapely \<Rightarrow> ('c coords \<times> string) list \<Rightarrow> 'c poly \<Rightarrow> 'c poly list \<Rightarrow> error + string list" where
  "genAnnotatedMapsLoop G [] poly srcPolys = Inr []"
| "genAnnotatedMapsLoop G (mapFile # rest) poly srcPolys =
     (case genAnnotatedMap G (fst mapFile) poly srcPolys of
        Inl e \<Rightarrow> Inl e
      | Inr _ \<Rightarrow>
          (case genAnnotatedMapsLoop G rest poly srcPolys of
             Inl e \<Rightarrow> Inl e
           | Inr mapUrls \<Rightarrow> Inr (snd mapFile # mapUrls)))"

text \<open>\<open>','.join(mapUrls)\<close>.\<close>

fun joinComma :: "string list \<Rightarrow> string" where
  "joinComma [] = []"
| "joinComma [u] = u"
| "joinComma (u # v # rest) = u @ '','' @ joinComma (v # rest)"

definition genAnnotatedMaps ::
  "('c, 'g) shapely \<Rightarrow> 'c collab \<Rightarrow> 'c poly \<Rightarrow> 'c poly list \<Rightarrow> error + string" where
  "genAnnotatedMaps G W poly srcPolys =
     (case genAnnotatedMapsLoop G (mapFiles W) poly srcPolys of
        Inl e \<Rightarrow> Inl e
      | Inr mapUrls \<Rightarrow> Inr (joinComma mapUrls))"

text \<open>
  \<open>fireDetected\<close>. The result is the state that the call leaves and the exception that
  ended it, if one did: what was written before an exception stays written. The e-mail and
  the SMS are logged as the calls of \<open>emailFireNotification\<close> and \<open>smsFireNotification\<close>.
  \<open>fireDetectedStored\<close> is the part of the call from \<open>insertDetectionsDB\<close> on.
\<close>

definition fireDetectedStored ::
  "('c, 'g) config \<Rightarrow> 'c collab \<Rightarrow> 'c state \<Rightarrow> string \<Rightarrow> int \<Rightarrow> int \<Rightarrow> fireSegment
     \<Rightarrow> 'c poly \<Rightarrow> 'c poly \<Rightarrow> 'c poly list \<Rightarrow> rat \<Rightarrow> 'c state \<times> error option" where
  "fireDetectedStored C W st cam heading ts seg cameraViewPoly poly srcPolys wScore =
     (let fireHeading = fst (headingRange W); rangeAngle = snd (headingRange W);
          d = dbase st;
          seg1 = seg\<lparr>weatherScore := Some (round4 wScore)\<rparr>;
          sortId = py_int (nowSortId W);
          d1 = d\<lparr>detections := detections d @
                 [insertDetectionsDB (proto C) d cam ts [] [] [] seg1 poly srcPolys sortId
                    fireHeading rangeAngle]\<rparr>
      in case genAnnotatedMaps (geo C) W poly srcPolys of
           Inl e \<Rightarrow> (st\<lparr>dbase := d1\<rparr>, Some e)
         | Inr mapUrl \<Rightarrow>
             (let croppedID = fst (annotatedImages W);
                  annotatedID = fst (snd (annotatedImages W));
                  finalTs = snd (snd (annotatedImages W))
              in if croppedID = [] then (st\<lparr>dbase := d1\<rparr>, None)
                 else
                   let croppedUrl = getUrlForFile W croppedID;
                       annotatedUrl = getUrlForFile W annotatedID;
                       d2 = d1\<lparr>detections :=
                              updateDetectionsDB (detections d1) cam ts croppedUrl annotatedUrl mapUrl\<rparr>
                   in (case enqueueFireUpdate (nowEnqueue W) (fireUpdateQueue st) cam heading ts finalTs seg1 of
                         Inl e \<Rightarrow> (st\<lparr>dbase := d2\<rparr>, Some e)
                       | Inr queue \<Rightarrow>
                           if publishAlert C d2 cam fireHeading rangeAngle ts wScore cameraViewPoly
                                (rxBurns W) (protoNum (proto C))
                           then (st\<lparr>dbase := d2\<lparr>alerts := alerts d2 @
                                        [insertAlertsDB (proto C) d2 cam ts croppedUrl annotatedUrl mapUrl
                                           seg1 poly srcPolys sortId fireHeading rangeAngle]\<rparr>,
                                    fireUpdateQueue := queue,
                                    outbox := outbox st @ [Pubsub cam ts croppedUrl, Email cam ts, Sms cam]\<rparr>,
                                 None)
                           else (st\<lparr>dbase := d2, fireUpdateQueue := queue\<rparr>, None))))"

definition fireDetected ::
  "('c, 'g) config \<Rightarrow> 'c collab \<Rightarrow> 'c state \<Rightarrow> string \<Rightarrow> int \<Rightarrow> int \<Rightarrow> fireSegment
     \<Rightarrow> 'c state \<times> error option" where
  "fireDetected C W st cam heading ts seg =
     (case ignoredHeading W of
        Some ih \<Rightarrow> (st\<lparr>ignoreCounter := ignoreCounter st @ [(cam, ih)]\<rparr>, None)
      | None \<Rightarrow>
          (case intersectLand (geo C) (landVertices C) (Some (triangle W)) of
             Inl e \<Rightarrow> (st, Some e)
           | Inr cameraViewPoly \<Rightarrow>
               (case consensusArea (geo C) (dbase st) ts cameraViewPoly of
                  Inl e \<Rightarrow> (st, Some e)
                | Inr fireArea \<Rightarrow>
                    (case checkWeatherInfo (geo C) W seg (fst fireArea) (snd fireArea) of
                       Inl e \<Rightarrow> (st, Some e)
                     | Inr wScore \<Rightarrow>
                         fireDetectedStored C W st cam heading ts seg cameraViewPoly
                           (fst fireArea) (snd fireArea) wScore))))"

section \<open>Processing a deferred update\<close>

text \<open>
  \<open>checkNewImage\<close>, on the unix times of the images that the archive returns for the span
  from \<open>finalTimestamp + 31\<close> to \<open>timestamp + POST_DETECTION_UPDATE_MINS*60\<close>.
\<close>

definition checkNewImage :: "int list \<Rightarrow> int \<Rightarrow> bool" where
  "checkNewImage images finalTs =
     (if length images = 0 then False
      else if last images > finalTs then True else False)"

text \<open>
  What \<open>genMovie\<close> computes from the unix times of the image sequence: the final timestamp
  (that of the last image) and the number of images after the detection, of which it keeps
  three at most (\<open>postImages[:3]\<close>).
\<close>

definition genMovie :: "int list \<Rightarrow> int \<Rightarrow> int \<times> nat" where
  "genMovie imgSequence ts =
     (let postImages = filter (\<lambda>t. \<not> t < ts \<and> t \<noteq> ts) imgSequence;
          finalTs = (if imgSequence = [] then ts else last imgSequence)
      in (finalTs, length (take 3 postImages)))"

text \<open>
  \<open>updateMovie\<close>: \<open>None\<close> stands for the pair \<open>(None, None)\<close> that it returns when the
  archive has no image of the detection time.
\<close>

definition updateMovie :: "'c collab \<Rightarrow> int \<Rightarrow> (string \<times> int \<times> bool) option" where
  "updateMovie W ts =
     (if \<not> detectionImage W then None
      else
        let finalTs = fst (genMovie (movieImages W) ts);
            postCount = snd (genMovie (movieImages W) ts);
            isFinalMovie = (postCount > 2)
        in Some (movieID W, finalTs, isFinalMovie))"

text \<open>The end of \<open>processEnqueuedUpdates\<close>: \<open>if reQueue: enqueueFireUpdate(...)\<close>.\<close>

definition requeue :: "'c collab \<Rightarrow> 'c state \<Rightarrow> fireEvent \<Rightarrow> int \<Rightarrow> bool \<Rightarrow> 'c state \<times> error option" where
  "requeue W st ev finalTs reQueue =
     (if reQueue then
        (case enqueueFireUpdate (nowEnqueue W) (fireUpdateQueue st) (cameraID ev) (cameraHeading ev)
                (timestamp ev) finalTs (fireSegment ev) of
           Inl e \<Rightarrow> (st, Some e)
         | Inr queue \<Rightarrow> (st\<lparr>fireUpdateQueue := queue\<rparr>, None))
      else (st, None))"

definition processEnqueuedUpdates ::
  "('c, 'g) config \<Rightarrow> 'c collab \<Rightarrow> 'c state \<Rightarrow> 'c state \<times> error option" where
  "processEnqueuedUpdates C W st =
     (case fst (popFireUpdate (nowPop W) (fireUpdateQueue st)) of
        None \<Rightarrow> (st, None)
      | Some ev \<Rightarrow>
          (let st1 = st\<lparr>fireUpdateQueue := snd (popFireUpdate (nowPop W) (fireUpdateQueue st))\<rparr>;
               cam = cameraID ev;
               ts = timestamp ev
           in (case queryDetections (dbase st1) cam ts of
                 Inl e \<Rightarrow> (st1, Some e)
               | Inr None \<Rightarrow> requeue W st1 ev (finalTimestamp ev) True
               | Inr (Some detectData) \<Rightarrow>
                   (let st2 = st1\<lparr>archiveCalls :=
                                   archiveCalls st1 @ [CheckNewImage cam ts (finalTimestamp ev)]\<rparr>
                    in if \<not> checkNewImage (newImages W) (finalTimestamp ev)
                       then requeue W st2 ev (finalTimestamp ev) True
                       else
                         (let st3 = st2\<lparr>archiveCalls := archiveCalls st2 @ [UpdateMovie cam ts]\<rparr> in
                          (case updateMovie W ts of
                             None \<Rightarrow> (st3, Some ValueError)
                           | Some res \<Rightarrow>
                               (let mID = fst res;
                                    finalTs = fst (snd res);
                                    isFinalMovie = snd (snd res);
                                    reQueue = (\<not> isFinalMovie)
                                in if mID \<noteq> [] \<and> finalTs \<noteq> 0 then
                                     (let movieUrl = getUrlForFile W mID;
                                          movieUrls = movieUrl @ '','' @ CroppedID detectData;
                                          d = dbase st3;
                                          d1 = d\<lparr>detections := updateDBMovie (detections d) cam ts movieUrls\<rparr>;
                                          st4 = st3\<lparr>dbase := d1\<rparr>;
                                          srcPolys = sourcePolygons detectData
                                      in if srcPolys = [] then (st4, Some IndexError)
                                         else
                                           (let cameraViewPoly = last srcPolys in
                                            if publishAlert C d1 cam (FireHeading detectData)
                                                 (AngularWidth detectData) ts (WeatherScore detectData)
                                                 cameraViewPoly (rxBurns W) (protoNum (proto C))
                                            then requeue W
                                                   (st4\<lparr>dbase := d1\<lparr>alerts :=
                                                              updateDBMovie (alerts d1) cam ts movieUrls\<rparr>,
                                                        outbox := outbox st4 @ [Pubsub cam ts movieUrls]\<rparr>)
                                                   ev finalTs reQueue
                                            else requeue W st4 ev finalTs reQueue))
                                   else (st3, None))))))))"

section \<open>Notions of the specification\<close>

text \<open>
  The intersection of all the source polygons of an event: the polygons are folded from
  the first to the last with the intersection primitive, the newer polygon as its first
  argument. There is none for an empty list, nor when an intersection on the way is null
  or is not a single polygon.
  \<open>intersectRev\<close> takes the list from the last polygon to the first.
\<close>

fun intersectRev :: "('c, 'g) shapely \<Rightarrow> 'c poly list \<Rightarrow> 'c poly option" where
  "intersectRev G [] = None"
| "intersectRev G [v] = Some v"
| "intersectRev G (v # w # rest) =
     (case intersectRev G (w # rest) of
        None \<Rightarrow> None
      | Some p \<Rightarrow>
          (case getPolygonIntersection G v p of
             Inl e \<Rightarrow> None
           | Inr q \<Rightarrow> (if truthy q then Some q else None)))"

definition intersectSources :: "('c, 'g) shapely \<Rightarrow> 'c poly list \<Rightarrow> 'c poly option" where
  "intersectSources G srcPolys = intersectRev G (rev srcPolys)"

text \<open>The invariant of a stored event: its polygon is the intersection of its source polygons.\<close>

definition consensusRow :: "('c, 'g) shapely \<Rightarrow> 'c detection \<Rightarrow> bool" where
  "consensusRow G r = (intersectSources G (sourcePolygons r) = Some (polygon r))"

text \<open>The consensus area of a stored event: its polygon with its source polygons.\<close>

definition areaOf :: "'c detection \<Rightarrow> 'c poly \<times> 'c poly list" where
  "areaOf r = (polygon r, sourcePolygons r)"

text \<open>
  Compatibility of prototype numbers as the specification words it: an observation of the
  production model against events of number 0, one of prototype model \<open>N\<close> against events
  of number \<open>N\<close>.
\<close>

definition compatibleSpec :: "nat \<Rightarrow> nat \<Rightarrow> bool" where
  "compatibleSpec pn stored = (if pn = 0 then stored = 0 else stored = pn)"

text \<open>
  Compatibility as \<open>isDuplicateDetection\<close> tests it: the production model against the
  stored values 0 and 1.
\<close>

definition compatibleCode :: "nat \<Rightarrow> nat \<Rightarrow> bool" where
  "compatibleCode pn stored = (if pn = 0 then stored \<le> 1 else stored = pn)"

section \<open>Example data\<close>

text \<open>
  A small instance of the geometry interface, for evaluating the definitions: rectangles
  with sides parallel to the axes and integer corners. A polygon is given by its lower
  left and upper right corner; a geometry is a rectangle, possibly flat, or empty
  (\<open>None\<close>). Rectangles that touch do intersect, in a geometry of area 0. Every
  rectangle is a single polygon, with an exterior.
\<close>

type_synonym box = "(int \<times> int \<times> int \<times> int) option"

definition boxPolygon :: "int poly \<Rightarrow> box" where
  "boxPolygon p =
     (case p of
        Some [ll, ur] \<Rightarrow>
          (if fst ll \<le> fst ur \<and> snd ll \<le> snd ur then Some (fst ll, snd ll, fst ur, snd ur) else None)
      | _ \<Rightarrow> None)"

definition boxIntersection :: "box \<Rightarrow> box \<Rightarrow> box" where
  "boxIntersection a b =
     (case a of
        None \<Rightarrow> None
      | Some (ax0, ay0, ax1, ay1) \<Rightarrow>
          (case b of
             None \<Rightarrow> None
           | Some (bx0, by0, bx1, by1) \<Rightarrow>
               (if max ax0 bx0 \<le> min ax1 bx1 \<and> max ay0 by0 \<le> min ay1 by1
                then Some (max ax0 bx0, max ay0 by0, min ax1 bx1, min ay1 by1) else None)))"

definition boxArea :: "box \<Rightarrow> rat" where
  "boxArea g = (case g of None \<Rightarrow> 0 | Some (x0, y0, x1, y1) \<Rightarrow> of_int ((x1 - x0) * (y1 - y0)))"

definition boxCoords :: "box \<Rightarrow> int coords option" where
  "boxCoords g = (case g of None \<Rightarrow> None | Some (x0, y0, x1, y1) \<Rightarrow> Some [(x0, y0), (x1, y1)])"

definition boxCentroid :: "box \<Rightarrow> (int \<times> int) list" where
  "boxCentroid g =
     (case g of None \<Rightarrow> [] | Some (x0, y0, x1, y1) \<Rightarrow> [((x0 + x1) div 2, (y0 + y1) div 2)])"

definition boxes :: "(int, box) shapely" where
  "boxes = \<lparr>Polygon = boxPolygon, Point = (\<lambda>x y. Some (x, y, x, y)),
            intersects = (\<lambda>a b. boxIntersection a b \<noteq> None), intersection = boxIntersection,
            area = boxArea, exterior_coords = boxCoords, centroid_xy = boxCentroid\<rparr>"

text \<open>
  The same geometry with a library that finds every intersection of positive area to be in
  several parts.
\<close>

definition boxesMulti :: "(int, box) shapely" where
  "boxesMulti = boxes\<lparr>exterior_coords := (\<lambda>g. None)\<rparr>"

text \<open>
  A configuration over that geometry: sectors overlap when their centres are no further apart
  than half the sum of their widths, camera \<open>cam1\<close> is a production camera, the official model
  runs, the threshold is one half, and the land is the square from (0, 0) to (100, 100).
\<close>

definition exConfig :: "(int, box) config" where
  "exConfig = \<lparr>geo = boxes,
               intersectsAngleRange = (\<lambda>h1 w1 h2 w2. \<bar>h1 - h2\<bar> \<le> (w1 + w2) / 2),
               proto = \<lparr>sourcesDict = [(''cam1'', ''prod''), (''cam2'', ''test'')],
                        prodTypesArr = [''prod''], protoNum = 0\<rparr>,
               weatherThreshold = 1 / 2,
               landVertices = [(0, 0), (100, 100)]\<rparr>"

definition exSegment :: fireSegment where
  "exSegment = \<lparr>score = 9 / 10, segAdjScore = None, MinX = 3, MinY = 13, MaxX = 7, MaxY = 17,
                weatherScore = Some 1\<rparr>"

text \<open>A stored event of camera \<open>cam1\<close>, detected at second 1000.\<close>

definition exRow :: "int detection" where
  "exRow = \<lparr>CameraName = ''cam1'', Timestamp = 1000, AdjScore = 9 / 10, ImageID = ''img'',
            CroppedID = ''crop'', MapID = ''map'', polygon = Some [(0, 0), (10, 10)],
            sourcePolygons = [Some [(0, 0), (10, 10)]], IsProto = 0, WeatherScore = 1,
            SortId = 1005, FireHeading = 90, AngularWidth = 10\<rparr>"

text \<open>The same event as a run of prototype model 1 writes it.\<close>

definition exProtoRow :: "int detection" where
  "exProtoRow =
     insertDetectionsDB \<lparr>sourcesDict = [(''cam1'', ''prod''), (''cam2'', ''test'')],
                          prodTypesArr = [''prod''], protoNum = 1\<rparr>
       \<lparr>detections = [], alerts = [], probables = [], sources = []\<rparr>
       ''cam1'' 1000 ''crop'' ''img'' ''map'' exSegment (Some [(0, 0), (10, 10)])
       [Some [(0, 0), (10, 10)]] 1005 90 10"

definition exDb :: "int db" where
  "exDb = \<lparr>detections = [exRow], alerts = [], probables = [],
           sources = [(''cam1'', ''loc1''), (''cam2'', ''loc1''), (''cam3'', ''loc2'')]\<rparr>"

text \<open>Its entry in the queue, and a state that holds both.\<close>

definition exEvent :: fireEvent where
  "exEvent = \<lparr>cameraID = ''cam1'', cameraHeading = 90, timestamp = 1000, finalTimestamp = 1000,
              fireSegment = exSegment\<rparr>"

definition exState :: "int state" where
  "exState = \<lparr>dbase = exDb, fireUpdateQueue = [exEvent], outbox = [], archiveCalls = [],
              ignoreCounter = []\<rparr>"

text \<open>
  Answers of the collaborators: the archive has the image of the detection and images of the
  seconds 1060 and 1120, the movie is \<open>mov\<close>, a new observation has the view from (5, 5) to
  (20, 20), there is neither a weather model nor a prescribed burn, and the camera has one
  map, which covers the land. The three readings of the clock follow.
\<close>

definition exCollab :: "rat \<Rightarrow> rat \<Rightarrow> rat \<Rightarrow> int collab" where
  "exCollab tPop tSort tEnq =
     \<lparr>nowPop = tPop, nowSortId = tSort, nowEnqueue = tEnq,
      newImages = [1060, 1120], detectionImage = True, movieImages = [940, 1000, 1060, 1120],
      movieID = ''mov'', headingRange = (90, 10), ignoredHeading = None,
      triangle = [(5, 5), (20, 20)], weatherModel = None, weatherData = False, rxBurns = [],
      mapFiles = [([(0, 0), (100, 100)], ''map'')], annotatedImages = (''crop'', ''ann'', 1100),
      getUrlForFile = (\<lambda>f. f)\<rparr>"

section \<open>Lemmas on the loops and queries\<close>

lemmas ex_defs = exConfig_def exDb_def exRow_def exState_def exEvent_def exSegment_def exCollab_def
  boxes_def boxesMulti_def boxPolygon_def boxIntersection_def boxArea_def boxCoords_def
  boxCentroid_def

lemma dupLoop_iff:
  "dupLoop ov rows h w pn \<longleftrightarrow>
     (\<exists>r \<in> set rows. compatibleCode pn (IsProto r) \<and> ov (FireHeading r) (AngularWidth r) h w)"
  by (induction rows) (auto simp: compatibleCode_def)

lemma burnLoop_iff:
  "burnLoop G vp burns \<longleftrightarrow> (\<forall>b \<in> set burns. \<not> intersects G vp (Point G (fst b) (snd b)))"
  by (induction burns) (auto simp: Let_def)

lemma isDuplicateDetection_iff:
  "isDuplicateDetection ov d cam h w ts pn \<longleftrightarrow>
     (\<exists>r \<in> set (detections d). ts - 7200 < Timestamp r \<and> Timestamp r < ts
         \<and> sameLocation (sources d) (CameraName r) cam
         \<and> compatibleCode pn (IsProto r)
         \<and> ov (FireHeading r) (AngularWidth r) h w)"
  unfolding isDuplicateDetection_def Let_def dupLoop_iff queryConfirmed_def
  by (auto simp: filter_empty_conv)

lemma isDuplicateProbables_iff:
  "isDuplicateProbables d cam hdg ts pn \<longleftrightarrow>
    (\<exists>r \<in> set (probables d). pCameraName r = cam \<and> pHeading r = hdg \<and> pProtoNum r = pn
        \<and> ts - 3600 < pTimestamp r \<and> pTimestamp r < ts)"
  unfolding isDuplicateProbables_def queryProbables_def
  by (auto simp: filter_empty_conv)

lemma scanDetections_Some:
  "scanDetections G t rows = Inr (Some (p, srcs)) \<Longrightarrow>
     \<exists>r \<in> set rows. getPolygonIntersection G t (polygon r) = Inr p \<and> truthy p
        \<and> srcs = sourcePolygons r \<and> polygon r \<noteq> None \<and> None \<notin> set (sourcePolygons r)"
  by (induction rows)
     (auto simp: json_loads_polygon_def json_loads_polygons_def
           split: if_splits sum.splits option.splits)

lemma scanDetections_None:
  "(\<forall>r \<in> set rows. polygon r \<noteq> None
       \<and> (\<exists>q. getPolygonIntersection G t (polygon r) = Inr q \<and> \<not> truthy q)) \<Longrightarrow>
     scanDetections G t rows = Inr None"
  by (induction rows) (auto simp: json_loads_polygon_def split: sum.splits option.splits)

lemma set_getRecentDetections:
  "set (getRecentDetections d ts) = {r \<in> set (detections d). ts - 15 * 60 < Timestamp r}"
  unfolding getRecentDetections_def by auto

lemma truthy_not_None: "truthy p \<Longrightarrow> p \<noteq> None"
  by (cases p) (simp_all add: truthy_def)

section \<open>Alert gating (C4)\<close>

text \<open>
  C4. \<open>publishAlert\<close> returns true exactly when the camera is not a prototype source, the
  weather score is at least the threshold, \<open>isDuplicateDetection\<close> does not flag a repeat,
  and no prescribed burn intersects the polygon of the camera's own view. In particular a
  prototype camera never publishes, also with score 1 and without any burn.
\<close>

theorem publishAlert_gate:
  "(publishAlert C d cam h w ts s view burns pn \<longleftrightarrow>
      \<not> isProto_bool (isProto (proto C) cam)
      \<and> weatherThreshold C \<le> s
      \<and> \<not> isDuplicateDetection (intersectsAngleRange C) d cam h w ts pn
      \<and> (\<forall>b \<in> set burns. \<not> intersects (geo C) (Polygon (geo C) view) (Point (geo C) (fst b) (snd b))))
   \<and> (isProto_bool (isProto (proto C) cam) \<longrightarrow> \<not> publishAlert C d cam h w ts 1 view [] pn)"
  unfolding publishAlert_def burnLoop_iff by auto

theorem publishAlert_gate_witness:
  "publishAlert exConfig exDb ''cam1'' 200 10 2000 1 (Some [(5, 5), (20, 20)]) [(50, 50)] 0
   \<and> \<not> publishAlert exConfig exDb ''cam1'' 200 10 2000 1 (Some [(5, 5), (20, 20)]) [(7, 7)] 0
   \<and> \<not> publishAlert exConfig exDb ''cam1'' 92 10 2000 1 (Some [(5, 5), (20, 20)]) [] 0
   \<and> \<not> publishAlert exConfig exDb ''cam1'' 200 10 2000 (1 / 4) (Some [(5, 5), (20, 20)]) [] 0
   \<and> isProto_bool (isProto (proto exConfig) ''cam2'')
   \<and> \<not> publishAlert exConfig exDb ''cam2'' 200 10 2000 1 (Some [(5, 5), (20, 20)]) [] 0"
  using publishAlert_gate [of exConfig exDb "''cam1''" 200 10 2000 1 "Some [(5, 5), (20, 20)]" "[(50, 50)]" 0]
    publishAlert_gate [of exConfig exDb "''cam1''" 200 10 2000 1 "Some [(5, 5), (20, 20)]" "[(7, 7)]" 0]
    publishAlert_gate [of exConfig exDb "''cam1''" 92 10 2000 1 "Some [(5, 5), (20, 20)]" "[]" 0]
    publishAlert_gate [of exConfig exDb "''cam1''" 200 10 2000 "1 / 4" "Some [(5, 5), (20, 20)]" "[]" 0]
    publishAlert_gate [of exConfig exDb "''cam2''" 200 10 2000 1 "Some [(5, 5), (20, 20)]" "[]" 0]
  by (simp add: ex_defs isDuplicateDetection_iff compatibleCode_def sameLocation_def
        isProto_def isProto_bool_def Let_def)

section \<open>Deduplication against confirmed events (C5)\<close>

text \<open>
  C5, as the claim words it, fails. An event that a run of prototype model 1 has recorded is
  stored with the value 1, the value that the official model stores for a camera that is
  not a production camera. An observation of the production model (number 0) is suppressed
  by that event, which is neither a production event nor one of number 0.
\<close>

theorem confirmed_dedup_counterexample:
  "isDuplicateDetection (intersectsAngleRange exConfig) (exDb\<lparr>detections := [exProtoRow]\<rparr>)
      ''cam1'' 92 10 2000 0
   \<and> IsProto exProtoRow = 1
   \<and> \<not> compatibleSpec 0 (IsProto exProtoRow)
   \<and> isProto_int (isProto (proto exConfig) ''cam2'') = 1"
  by (simp add: ex_defs exProtoRow_def insertDetectionsDB_def isDuplicateDetection_iff
        compatibleCode_def compatibleSpec_def sameLocation_def isProto_def isProto_int_def Let_def)

text \<open>
  C5, amended. \<open>isDuplicateDetection\<close> suppresses an observation exactly when some stored
  event of the last two hours (strictly inside the window), of a camera at the same
  location, has an overlapping sector and a compatible stored prototype value: for the
  production model the stored values 0 and 1 (events of the official model, from production
  and from other cameras), for prototype model \<open>N > 0\<close> the stored value \<open>N\<close>.
\<close>

theorem confirmed_dedup_compat:
  "isDuplicateDetection ov d cam h w ts pn \<longleftrightarrow>
     (\<exists>r \<in> set (detections d). ts - 2 * 60 * 60 < Timestamp r \<and> Timestamp r < ts
         \<and> sameLocation (sources d) (CameraName r) cam
         \<and> (if pn = 0 then IsProto r \<le> 1 else IsProto r = pn)
         \<and> ov (FireHeading r) (AngularWidth r) h w)"
  unfolding isDuplicateDetection_iff compatibleCode_def by simp

theorem confirmed_dedup_compat_witness:
  "isDuplicateDetection (intersectsAngleRange exConfig) exDb ''cam2'' 92 10 2000 0
   \<and> \<not> isDuplicateDetection (intersectsAngleRange exConfig) exDb ''cam3'' 92 10 2000 0
   \<and> \<not> isDuplicateDetection (intersectsAngleRange exConfig) exDb ''cam2'' 92 10 2000 2
   \<and> \<not> isDuplicateDetection (intersectsAngleRange exConfig) exDb ''cam2'' 92 10 9000 0
   \<and> \<not> isDuplicateDetection (intersectsAngleRange exConfig) exDb ''cam2'' 200 10 2000 0
   \<and> \<not> isDuplicateDetection (intersectsAngleRange exConfig)
         (exDb\<lparr>detections := [exRow\<lparr>IsProto := 2\<rparr>]\<rparr>) ''cam2'' 92 10 2000 0
   \<and> isDuplicateDetection (intersectsAngleRange exConfig)
         (exDb\<lparr>detections := [exRow\<lparr>IsProto := 2\<rparr>]\<rparr>) ''cam2'' 92 10 2000 2"
  using confirmed_dedup_compat [of "intersectsAngleRange exConfig" exDb "''cam2''" 92 10 2000 0]
    confirmed_dedup_compat [of "intersectsAngleRange exConfig" exDb "''cam3''" 92 10 2000 0]
    confirmed_dedup_compat [of "intersectsAngleRange exConfig" exDb "''cam2''" 92 10 2000 2]
    confirmed_dedup_compat [of "intersectsAngleRange exConfig" exDb "''cam2''" 92 10 9000 0]
    confirmed_dedup_compat [of "intersectsAngleRange exConfig" exDb "''cam2''" 200 10 2000 0]
    confirmed_dedup_compat [of "intersectsAngleRange exConfig"
       "exDb\<lparr>detections := [exRow\<lparr>IsProto := 2\<rparr>]\<rparr>" "''cam2''" 92 10 2000 0]
    confirmed_dedup_compat [of "intersectsAngleRange exConfig"
       "exDb\<lparr>detections := [exRow\<lparr>IsProto := 2\<rparr>]\<rparr>" "''cam2''" 92 10 2000 2]
  by (simp add: ex_defs sameLocation_def)

section \<open>Deduplication against probables (C10)\<close>

text \<open>
  C10. \<open>isDuplicateProbables\<close> for an observation of second \<open>T\<close> looks only at rows with a
  timestamp strictly between \<open>T - 3600\<close> and \<open>T\<close>, so the row that \<open>recordProbables\<close>
  has just written for this very observation does not change its answer.
\<close>

theorem probables_window:
  "(isDuplicateProbables d cam hdg ts pn \<longleftrightarrow>
      (\<exists>r \<in> set (probables d). pCameraName r = cam \<and> pHeading r = hdg \<and> pProtoNum r = pn
          \<and> ts - 60 * 60 < pTimestamp r \<and> pTimestamp r < ts))
   \<and> isDuplicateProbables (recordProbables d cam hdg ts stateless pn) cam hdg ts pn
       = isDuplicateProbables d cam hdg ts pn"
  unfolding isDuplicateProbables_iff recordProbables_def by auto

theorem probables_window_witness:
  "\<not> isDuplicateProbables (recordProbables exDb ''cam1'' 90 5000 False 0) ''cam1'' 90 5000 0
   \<and> isDuplicateProbables (recordProbables exDb ''cam1'' 90 5000 False 0) ''cam1'' 90 5001 0
   \<and> isDuplicateProbables (recordProbables exDb ''cam1'' 90 5000 False 0) ''cam1'' 90 8599 0
   \<and> \<not> isDuplicateProbables (recordProbables exDb ''cam1'' 90 5000 False 0) ''cam1'' 90 8600 0"
  using probables_window [of exDb "''cam1''" 90 5000 0 False]
    probables_window [of "recordProbables exDb ''cam1'' 90 5000 False 0" "''cam1''" 90 5001 0]
    probables_window [of "recordProbables exDb ''cam1'' 90 5000 False 0" "''cam1''" 90 8599 0]
    probables_window [of "recordProbables exDb ''cam1'' 90 5000 False 0" "''cam1''" 90 8600 0]
  by (simp add: ex_defs recordProbables_def)

section \<open>The polygon intersection primitive (C7)\<close>

text \<open>
  C7, as the claim words it, fails for the deduplication: \<open>isDuplicateDetection\<close> compares
  sectors of headings and never intersects polygons. Here it suppresses an observation
  against a stored event, while the intersection primitive returns null for the stored
  polygon and the polygon of the new view.
\<close>

theorem dedup_polygon_rule_counterexample:
  "isDuplicateDetection (intersectsAngleRange exConfig) exDb ''cam2'' 92 10 2000 0
   \<and> detections exDb = [exRow]
   \<and> getPolygonIntersection boxes (Some [(50, 50), (60, 60)]) (polygon exRow) = Inr None"
  by (simp add: ex_defs isDuplicateDetection_iff compatibleCode_def sameLocation_def
        getPolygonIntersection_def Let_def)

text \<open>
  C7, amended. \<open>getPolygonIntersection\<close> returns null exactly when the polygons do not
  intersect or their intersection has area zero (so polygons that only touch give null),
  and it returns the vertex list of the exterior of the intersection when that is a single
  polygon of positive area; what it does for an intersection in several parts is left
  open here. Land clipping is this primitive applied to the coast line. Consensus merging
  accepts a stored event only with a result of the primitive that is not null, and it
  finds no match when the primitive returns null for every stored polygon, each of them
  being readable.
\<close>

theorem polygon_intersection_null_rule:
  "(getPolygonIntersection G a b = Inr None \<longleftrightarrow>
      \<not> intersects G (Polygon G a) (Polygon G b)
      \<or> area G (intersection G (Polygon G a) (Polygon G b)) = 0)
   \<and> (\<forall>vs. intersects G (Polygon G a) (Polygon G b)
          \<and> area G (intersection G (Polygon G a) (Polygon G b)) \<noteq> 0
          \<and> exterior_coords G (intersection G (Polygon G a) (Polygon G b)) = Some vs \<longrightarrow>
        getPolygonIntersection G a b = Inr (Some vs))
   \<and> intersectLand G land t = getPolygonIntersection G t (Some land)
   \<and> (\<forall>p srcs. intersectRecentDetections G d ts t = Inr (Some (p, srcs)) \<longrightarrow>
        (\<exists>r \<in> set (detections d). getPolygonIntersection G t (polygon r) = Inr p \<and> p \<noteq> None
            \<and> srcs = sourcePolygons r))
   \<and> ((\<forall>r \<in> set (detections d). polygon r \<noteq> None
            \<and> getPolygonIntersection G t (polygon r) = Inr None) \<longrightarrow>
        intersectRecentDetections G d ts t = Inr None)"
proof -
  have 1: "getPolygonIntersection G a b = Inr None \<longleftrightarrow>
      \<not> intersects G (Polygon G a) (Polygon G b)
      \<or> area G (intersection G (Polygon G a) (Polygon G b)) = 0"
    unfolding getPolygonIntersection_def Let_def by (simp split: option.splits)
  have 2: "\<forall>vs. intersects G (Polygon G a) (Polygon G b)
          \<and> area G (intersection G (Polygon G a) (Polygon G b)) \<noteq> 0
          \<and> exterior_coords G (intersection G (Polygon G a) (Polygon G b)) = Some vs \<longrightarrow>
        getPolygonIntersection G a b = Inr (Some vs)"
    unfolding getPolygonIntersection_def Let_def by simp
  have 3: "intersectLand G land t = getPolygonIntersection G t (Some land)"
    by (simp add: intersectLand_def)
  have 4: "\<forall>p srcs. intersectRecentDetections G d ts t = Inr (Some (p, srcs)) \<longrightarrow>
        (\<exists>r \<in> set (detections d). getPolygonIntersection G t (polygon r) = Inr p \<and> p \<noteq> None
            \<and> srcs = sourcePolygons r)"
  proof (intro allI impI)
    fix p srcs
    assume "intersectRecentDetections G d ts t = Inr (Some (p, srcs))"
    then obtain r where "r \<in> set (getRecentDetections d ts)"
      "getPolygonIntersection G t (polygon r) = Inr p" "truthy p" "srcs = sourcePolygons r"
      unfolding intersectRecentDetections_def using scanDetections_Some by blast
    then show "\<exists>r \<in> set (detections d). getPolygonIntersection G t (polygon r) = Inr p \<and> p \<noteq> None
            \<and> srcs = sourcePolygons r"
      using truthy_not_None set_getRecentDetections by blast
  qed
  have 5: "(\<forall>r \<in> set (detections d). polygon r \<noteq> None
            \<and> getPolygonIntersection G t (polygon r) = Inr None) \<longrightarrow>
        intersectRecentDetections G d ts t = Inr None"
  proof
    assume a: "\<forall>r \<in> set (detections d). polygon r \<noteq> None
            \<and> getPolygonIntersection G t (polygon r) = Inr None"
    have "\<forall>r \<in> set (getRecentDetections d ts). polygon r \<noteq> None
       \<and> (\<exists>q. getPolygonIntersection G t (polygon r) = Inr q \<and> \<not> truthy q)"
    proof
      fix r assume "r \<in> set (getRecentDetections d ts)"
      then have "r \<in> set (detections d)" using set_getRecentDetections by blast
      with a have "polygon r \<noteq> None" "getPolygonIntersection G t (polygon r) = Inr None" by auto
      then show "polygon r \<noteq> None
        \<and> (\<exists>q. getPolygonIntersection G t (polygon r) = Inr q \<and> \<not> truthy q)"
        by (simp add: truthy_def)
    qed
    then show "intersectRecentDetections G d ts t = Inr None"
      unfolding intersectRecentDetections_def by (rule scanDetections_None)
  qed
  from 1 2 3 4 5 show ?thesis by blast
qed

theorem polygon_intersection_null_rule_witness:
  "intersects boxes (Polygon boxes (Some [(0, 0), (1, 1)])) (Polygon boxes (Some [(1, 1), (2, 2)]))
   \<and> getPolygonIntersection boxes (Some [(0, 0), (1, 1)]) (Some [(1, 1), (2, 2)]) = Inr None
   \<and> getPolygonIntersection boxes (Some [(0, 0), (1, 1)]) (Some [(3, 3), (4, 4)]) = Inr None
   \<and> exterior_coords boxes (intersection boxes (Polygon boxes (Some [(0, 0), (10, 10)]))
        (Polygon boxes (Some [(5, 5), (20, 20)]))) = Some [(5, 5), (10, 10)]
   \<and> getPolygonIntersection boxes (Some [(0, 0), (10, 10)]) (Some [(5, 5), (20, 20)])
       = Inr (Some [(5, 5), (10, 10)])
   \<and> intersectLand boxes [(0, 0), (100, 100)] (Some [(90, 90), (120, 120)])
       = Inr (Some [(90, 90), (100, 100)])
   \<and> intersectRecentDetections boxes exDb 1100 (Some [(5, 5), (20, 20)])
       = Inr (Some (Some [(5, 5), (10, 10)], [Some [(0, 0), (10, 10)]]))
   \<and> intersectRecentDetections boxes exDb 1100 (Some [(10, 10), (20, 20)]) = Inr None"
  using polygon_intersection_null_rule [of boxes "Some [(0, 0), (1, 1)]" "Some [(1, 1), (2, 2)]"
           "[(0, 0), (100, 100)]" "Some [(90, 90), (120, 120)]" exDb 1100]
    polygon_intersection_null_rule [of boxes "Some [(0, 0), (1, 1)]" "Some [(3, 3), (4, 4)]"
           "[(0, 0), (100, 100)]" "Some [(10, 10), (20, 20)]" exDb 1100]
    polygon_intersection_null_rule [of boxes "Some [(0, 0), (10, 10)]" "Some [(5, 5), (20, 20)]"
           "[(0, 0), (100, 100)]" "Some [(5, 5), (20, 20)]" exDb 1100]
  by (simp add: ex_defs getPolygonIntersection_def intersectRecentDetections_def
        getRecentDetections_def truthy_def json_loads_polygon_def json_loads_polygons_def Let_def)

section \<open>Lemmas on the queue and on the processing of an update\<close>

lemma enqueue_cases:
  "enqueueFireUpdate now q cam hdg ts fts seg =
     (if \<exists>x \<in> set q. cameraID x = cam \<and> timestamp x = ts then Inl AssertionError
      else if now > of_int (ts + 7 * 60) then Inr q
      else Inr (sort_key finalTimestamp
                  (q @ [\<lparr>cameraID = cam, cameraHeading = hdg, timestamp = ts,
                         finalTimestamp = fts, fireSegment = seg\<rparr>])))"
  unfolding enqueueFireUpdate_def Let_def POST_DETECTION_UPDATE_MINS_def
  by (auto simp: filter_empty_conv)

lemma pop_cases:
  "popFireUpdate now q =
     (if q \<noteq> [] \<and> now > of_int (finalTimestamp (hd q)) + 60 then (Some (hd q), tl q) else (None, q))"
  unfolding popFireUpdate_def by (cases q) auto

lemma sorted_tl_map: "sorted (map f q) \<Longrightarrow> sorted (map f (tl q))"
  by (cases q) auto

lemmas run_defs = processEnqueuedUpdates_def requeue_def updateMovie_def genMovie_def
  checkNewImage_def queryDetections_def publishAlert_def updateDBMovie_def isProto_def
  isProto_bool_def sameLocation_def compatibleCode_def json_loads_polygon_def
  json_loads_polygons_def Let_def

lemma requeue_fields:
  "outbox (fst (requeue W st ev fts b)) = outbox st"
  "archiveCalls (fst (requeue W st ev fts b)) = archiveCalls st"
  "dbase (fst (requeue W st ev fts b)) = dbase st"
  unfolding requeue_def by (auto split: sum.splits)

lemma requeue_late:
  "nowEnqueue W > of_int (timestamp ev + 7 * 60) \<Longrightarrow>
     fireUpdateQueue (fst (requeue W st ev fts b)) = fireUpdateQueue st"
  unfolding requeue_def enqueue_cases by (auto split: sum.splits)

lemma requeue_False: "requeue W st ev fts False = (st, None)"
  by (simp add: requeue_def)

lemma requeue_in_time:
  "\<not> (\<exists>x \<in> set (fireUpdateQueue st). cameraID x = cameraID ev \<and> timestamp x = timestamp ev) \<Longrightarrow>
   nowEnqueue W \<le> of_int (timestamp ev + 7 * 60) \<Longrightarrow>
     requeue W st ev fts True =
       (st\<lparr>fireUpdateQueue := sort_key finalTimestamp
              (fireUpdateQueue st @ [ev\<lparr>finalTimestamp := fts\<rparr>])\<rparr>, None)"
  unfolding requeue_def enqueue_cases by (cases ev) auto

lemma process_queue_late:
  assumes "fst (popFireUpdate (nowPop W) (fireUpdateQueue st)) = Some ev"
    and "nowEnqueue W > of_int (timestamp ev + 7 * 60)"
  shows "fireUpdateQueue (fst (processEnqueuedUpdates C W st)) = tl (fireUpdateQueue st)"
proof -
  have rest: "snd (popFireUpdate (nowPop W) (fireUpdateQueue st)) = tl (fireUpdateQueue st)"
    using assms(1) unfolding pop_cases by (auto split: if_splits)
  show ?thesis
    unfolding processEnqueuedUpdates_def Let_def
    using assms rest
    by (auto simp: requeue_late split: option.splits sum.splits)
qed

lemma isDuplicateDetection_map:
  assumes "\<And>r. Timestamp (f r) = Timestamp r" "\<And>r. CameraName (f r) = CameraName r"
    "\<And>r. IsProto (f r) = IsProto r" "\<And>r. FireHeading (f r) = FireHeading r"
    "\<And>r. AngularWidth (f r) = AngularWidth r"
  shows "isDuplicateDetection ov (d\<lparr>detections := map f (detections d)\<rparr>) c h w t pn
     = isDuplicateDetection ov d c h w t pn"
  unfolding isDuplicateDetection_iff by (simp add: assms)

lemma isDuplicateDetection_updateDBMovie:
  "isDuplicateDetection ov (d\<lparr>detections := updateDBMovie (detections d) cam ts urls\<rparr>) c h w t pn
     = isDuplicateDetection ov d c h w t pn"
  unfolding updateDBMovie_def by (rule isDuplicateDetection_map) simp_all

lemma publishAlert_updateDBMovie:
  "publishAlert C (d\<lparr>detections := updateDBMovie (detections d) cam ts urls\<rparr>) c h w t s v b pn
     = publishAlert C d c h w t s v b pn"
  unfolding publishAlert_def isDuplicateDetection_updateDBMovie by simp

lemma genMovie_postCount:
  "snd (genMovie imgs ts) > 2 \<longleftrightarrow> length (filter (\<lambda>t. ts < t) imgs) > 2"
proof -
  have "(\<lambda>t. \<not> t < ts \<and> t \<noteq> ts) = (\<lambda>t. ts < t)" by auto
  then show ?thesis unfolding genMovie_def Let_def by auto
qed

lemma process_update:
  assumes pop: "fst (popFireUpdate (nowPop W) (fireUpdateQueue st)) = Some ev"
    and q: "queryDetections (dbase st) (cameraID ev) (timestamp ev) = Inr (Some dd)"
    and new: "checkNewImage (newImages W) (finalTimestamp ev)"
    and img: "detectionImage W"
    and mov: "movieID W \<noteq> []"
    and fin: "fst (genMovie (movieImages W) (timestamp ev)) \<noteq> 0"
    and src: "sourcePolygons dd \<noteq> []"
  shows "processEnqueuedUpdates C W st =
    requeue W
      (st\<lparr>fireUpdateQueue := tl (fireUpdateQueue st),
          archiveCalls := archiveCalls st @
             [CheckNewImage (cameraID ev) (timestamp ev) (finalTimestamp ev),
              UpdateMovie (cameraID ev) (timestamp ev)],
          dbase := (if publishAlert C (dbase st) (cameraID ev) (FireHeading dd) (AngularWidth dd)
                         (timestamp ev) (WeatherScore dd) (last (sourcePolygons dd)) (rxBurns W)
                         (protoNum (proto C))
                    then (dbase st)\<lparr>detections := updateDBMovie (detections (dbase st)) (cameraID ev)
                                (timestamp ev) (getUrlForFile W (movieID W) @ '','' @ CroppedID dd),
                            alerts := updateDBMovie (alerts (dbase st)) (cameraID ev)
                                (timestamp ev) (getUrlForFile W (movieID W) @ '','' @ CroppedID dd)\<rparr>
                    else (dbase st)\<lparr>detections := updateDBMovie (detections (dbase st)) (cameraID ev)
                                (timestamp ev) (getUrlForFile W (movieID W) @ '','' @ CroppedID dd)\<rparr>),
          outbox := outbox st @
             (if publishAlert C (dbase st) (cameraID ev) (FireHeading dd) (AngularWidth dd)
                   (timestamp ev) (WeatherScore dd) (last (sourcePolygons dd)) (rxBurns W)
                   (protoNum (proto C))
              then [Pubsub (cameraID ev) (timestamp ev)
                      (getUrlForFile W (movieID W) @ '','' @ CroppedID dd)]
              else [])\<rparr>)
      ev (fst (genMovie (movieImages W) (timestamp ev)))
      (\<not> snd (genMovie (movieImages W) (timestamp ev)) > 2)"
proof -
  have rest: "snd (popFireUpdate (nowPop W) (fireUpdateQueue st)) = tl (fireUpdateQueue st)"
    using pop unfolding pop_cases by (auto split: if_splits)
  show ?thesis
    unfolding processEnqueuedUpdates_def Let_def
    using assms rest
    by (simp add: updateMovie_def Let_def publishAlert_updateDBMovie)
qed

section \<open>Order of the queue and polling (C2)\<close>

text \<open>
  C2. An enqueue leaves a sorted queue sorted by final timestamp (it sorts after appending,
  and changes nothing when it discards), and so does a poll. A poll looks at the head only:
  it removes and returns the head exactly when the clock is more than 60 seconds past the
  head's final timestamp, hence only when it is at least 60 seconds past it; otherwise,
  and in particular whenever the clock is less than 60 seconds past it, the queue stays as
  it is and nothing is returned. Entries enqueued into the empty queue with the final
  timestamps 50, 10, 30 are popped in the order 10, 30, 50.
\<close>

theorem queue_sorted_poll:
  "(enqueueFireUpdate now q cam hdg ts fts seg = Inr q' \<and> sorted (map finalTimestamp q)
       \<longrightarrow> sorted (map finalTimestamp q'))
   \<and> (sorted (map finalTimestamp q) \<longrightarrow> sorted (map finalTimestamp (snd (popFireUpdate now q))))
   \<and> (fst (popFireUpdate now q) = Some e \<longleftrightarrow>
         q \<noteq> [] \<and> e = hd q \<and> now > of_int (finalTimestamp (hd q)) + 60)
   \<and> (fst (popFireUpdate now q) = Some e \<longrightarrow>
         snd (popFireUpdate now q) = tl q \<and> now \<ge> of_int (finalTimestamp e) + 60)
   \<and> (fst (popFireUpdate now q) = None \<longrightarrow> snd (popFireUpdate now q) = q)
   \<and> (q \<noteq> [] \<and> now < of_int (finalTimestamp (hd q)) + 60 \<longrightarrow> popFireUpdate now q = (None, q))
   \<and> (\<exists>q1 q2 q3 e1 e2 e3.
         enqueueFireUpdate 0 [] ''cam1'' 90 50 50 exSegment = Inr q1
         \<and> enqueueFireUpdate 0 q1 ''cam1'' 90 10 10 exSegment = Inr q2
         \<and> enqueueFireUpdate 0 q2 ''cam1'' 90 30 30 exSegment = Inr q3
         \<and> popFireUpdate 1000 q3 = (Some e1, tl q3)
         \<and> popFireUpdate 1000 (tl q3) = (Some e2, tl (tl q3))
         \<and> popFireUpdate 1000 (tl (tl q3)) = (Some e3, [])
         \<and> map finalTimestamp [e1, e2, e3] = [10, 30, 50])"
proof -
  have 1: "enqueueFireUpdate now q cam hdg ts fts seg = Inr q' \<and> sorted (map finalTimestamp q)
       \<longrightarrow> sorted (map finalTimestamp q')"
    unfolding enqueue_cases by (auto split: if_splits)
  have 2: "sorted (map finalTimestamp q) \<longrightarrow> sorted (map finalTimestamp (snd (popFireUpdate now q)))"
    unfolding pop_cases by (simp add: sorted_tl_map)
  have 3: "fst (popFireUpdate now q) = Some e \<longleftrightarrow>
         q \<noteq> [] \<and> e = hd q \<and> now > of_int (finalTimestamp (hd q)) + 60"
    unfolding pop_cases by auto
  have 4: "fst (popFireUpdate now q) = Some e \<longrightarrow>
         snd (popFireUpdate now q) = tl q \<and> now \<ge> of_int (finalTimestamp e) + 60"
    unfolding pop_cases by auto
  have 5: "fst (popFireUpdate now q) = None \<longrightarrow> snd (popFireUpdate now q) = q"
    unfolding pop_cases by auto
  have 6: "q \<noteq> [] \<and> now < of_int (finalTimestamp (hd q)) + 60 \<longrightarrow> popFireUpdate now q = (None, q)"
    unfolding pop_cases by auto
  have 7: "\<exists>q1 q2 q3 e1 e2 e3.
         enqueueFireUpdate 0 [] ''cam1'' 90 50 50 exSegment = Inr q1
         \<and> enqueueFireUpdate 0 q1 ''cam1'' 90 10 10 exSegment = Inr q2
         \<and> enqueueFireUpdate 0 q2 ''cam1'' 90 30 30 exSegment = Inr q3
         \<and> popFireUpdate 1000 q3 = (Some e1, tl q3)
         \<and> popFireUpdate 1000 (tl q3) = (Some e2, tl (tl q3))
         \<and> popFireUpdate 1000 (tl (tl q3)) = (Some e3, [])
         \<and> map finalTimestamp [e1, e2, e3] = [10, 30, 50]"
    by (simp add: enqueue_cases pop_cases)
  from 1 2 3 4 5 6 7 show ?thesis by blast
qed

theorem queue_sorted_poll_witness:
  "enqueueFireUpdate 1100 [exEvent] ''cam2'' 45 900 900 exSegment
      = Inr [\<lparr>cameraID = ''cam2'', cameraHeading = 45, timestamp = 900, finalTimestamp = 900,
               fireSegment = exSegment\<rparr>, exEvent]
   \<and> sorted (map finalTimestamp [exEvent])
   \<and> sorted (map finalTimestamp
        [\<lparr>cameraID = ''cam2'', cameraHeading = 45, timestamp = 900, finalTimestamp = 900,
           fireSegment = exSegment\<rparr>, exEvent])
   \<and> fst (popFireUpdate 1061 [exEvent]) = Some exEvent
   \<and> snd (popFireUpdate 1061 [exEvent]) = []
   \<and> fst (popFireUpdate 1060 [exEvent]) = None
   \<and> snd (popFireUpdate 1060 [exEvent]) = [exEvent]
   \<and> popFireUpdate 1059 [exEvent] = (None, [exEvent])"
  using queue_sorted_poll [of 1100 "[exEvent]" "''cam2''" 45 900 900 exSegment
      "[\<lparr>cameraID = ''cam2'', cameraHeading = 45, timestamp = 900, finalTimestamp = 900,
               fireSegment = exSegment\<rparr>, exEvent]" exEvent]
    queue_sorted_poll [of 1061 "[exEvent]" "''cam2''" 45 900 900 exSegment "[]" exEvent]
    queue_sorted_poll [of 1060 "[exEvent]" "''cam2''" 45 900 900 exSegment "[]" exEvent]
    queue_sorted_poll [of 1059 "[exEvent]" "''cam2''" 45 900 900 exSegment "[]" exEvent]
  by (simp add: enqueue_cases pop_cases exEvent_def)

section \<open>The assertion of the enqueue (C9)\<close>

text \<open>
  C9. \<open>enqueueFireUpdate\<close> fails, with an assertion error, exactly when the queue already
  holds an entry of the same camera and detection timestamp. It fails in no other way, and
  without such an entry it returns a queue.
\<close>

theorem enqueue_duplicate_asserts:
  "(enqueueFireUpdate now q cam hdg ts fts seg = Inl AssertionError \<longleftrightarrow>
      (\<exists>x \<in> set q. cameraID x = cam \<and> timestamp x = ts))
   \<and> (\<forall>e. enqueueFireUpdate now q cam hdg ts fts seg = Inl e \<longrightarrow> e = AssertionError)
   \<and> (\<not> (\<exists>x \<in> set q. cameraID x = cam \<and> timestamp x = ts) \<longrightarrow>
        (\<exists>q'. enqueueFireUpdate now q cam hdg ts fts seg = Inr q'))"
  unfolding enqueue_cases by auto

theorem enqueue_duplicate_asserts_witness:
  "enqueueFireUpdate 1100 [exEvent] ''cam1'' 90 1000 1200 exSegment = Inl AssertionError
   \<and> enqueueFireUpdate 1100 [exEvent] ''cam1'' 90 1001 1001 exSegment
       = Inr [exEvent, \<lparr>cameraID = ''cam1'', cameraHeading = 90, timestamp = 1001,
                          finalTimestamp = 1001, fireSegment = exSegment\<rparr>]
   \<and> enqueueFireUpdate 1100 [exEvent] ''cam2'' 90 1000 1000 exSegment
       = Inr [exEvent, \<lparr>cameraID = ''cam2'', cameraHeading = 90, timestamp = 1000,
                          finalTimestamp = 1000, fireSegment = exSegment\<rparr>]"
  using enqueue_duplicate_asserts [of 1100 "[exEvent]" "''cam1''" 90 1000 1200 exSegment]
    enqueue_duplicate_asserts [of 1100 "[exEvent]" "''cam1''" 90 1001 1001 exSegment]
    enqueue_duplicate_asserts [of 1100 "[exEvent]" "''cam2''" 90 1000 1000 exSegment]
  by (simp add: enqueue_cases exEvent_def)

section \<open>Past the horizon of seven minutes (C3)\<close>

text \<open>
  C3, as the claim words it, fails. \<open>processEnqueuedUpdates\<close> does not look at the clock
  after the pop: for an entry detected at second 1000 and popped at second 2000, later
  than 1000 + 7 * 60, it still asks the archive for new images, regenerates the movie and
  publishes the notification. Only \<open>enqueueFireUpdate\<close> tests the horizon.
\<close>

theorem post_horizon_counterexample:
  "nowPop (exCollab 2000 2000 2000) > of_int (timestamp exEvent + POST_DETECTION_UPDATE_MINS * 60)
   \<and> fst (popFireUpdate (nowPop (exCollab 2000 2000 2000)) (fireUpdateQueue exState)) = Some exEvent
   \<and> archiveCalls (fst (processEnqueuedUpdates exConfig (exCollab 2000 2000 2000) exState))
       = [CheckNewImage ''cam1'' 1000 1000, UpdateMovie ''cam1'' 1000]
   \<and> outbox (fst (processEnqueuedUpdates exConfig (exCollab 2000 2000 2000) exState))
       = [Pubsub ''cam1'' 1000 ''mov,crop'']"
  by (simp add: ex_defs run_defs pop_cases enqueue_cases isDuplicateDetection_iff
        POST_DETECTION_UPDATE_MINS_def)

text \<open>
  C3, amended. An entry that is popped later than seven minutes after its detection
  timestamp is never put back into the queue, whatever its final timestamp, given that the
  clock does not run backwards between the pop and the enqueue: after the call the queue is
  the queue without its head.
\<close>

theorem post_horizon_not_requeued:
  "fst (popFireUpdate (nowPop W) (fireUpdateQueue st)) = Some ev
   \<and> nowPop W > of_int (timestamp ev + POST_DETECTION_UPDATE_MINS * 60)
   \<and> nowPop W \<le> nowEnqueue W
   \<longrightarrow> fireUpdateQueue (fst (processEnqueuedUpdates C W st)) = tl (fireUpdateQueue st)"
  using process_queue_late [of W st ev C]
  by (auto simp: POST_DETECTION_UPDATE_MINS_def)

theorem post_horizon_not_requeued_witness:
  "fst (popFireUpdate (nowPop (exCollab 2000 2000 2000)) (fireUpdateQueue exState)) = Some exEvent
   \<and> nowPop (exCollab 2000 2000 2000) > of_int (timestamp exEvent + POST_DETECTION_UPDATE_MINS * 60)
   \<and> nowPop (exCollab 2000 2000 2000) \<le> nowEnqueue (exCollab 2000 2000 2000)
   \<and> fireUpdateQueue (fst (processEnqueuedUpdates exConfig (exCollab 2000 2000 2000) exState)) = []"
  using post_horizon_not_requeued [of "exCollab 2000 2000 2000" exState exEvent exConfig]
  by (simp add: ex_defs pop_cases POST_DETECTION_UPDATE_MINS_def)

section \<open>Updates of the movie and their notification (C6)\<close>

text \<open>
  C6, as the claim words it, fails. With two images after the detection the update is not
  final and the entry is queued again with the final timestamp 1120, yet the notification
  is published; the next update, with a third image, publishes it a second time.
\<close>

theorem nonterminal_notification_counterexample:
  "updateMovie (exCollab 1200 1200 1200) (timestamp exEvent) = Some (''mov'', 1120, False)
   \<and> outbox (fst (processEnqueuedUpdates exConfig (exCollab 1200 1200 1200) exState))
       = [Pubsub ''cam1'' 1000 ''mov,crop'']
   \<and> map finalTimestamp
        (fireUpdateQueue (fst (processEnqueuedUpdates exConfig (exCollab 1200 1200 1200) exState)))
       = [1120]
   \<and> outbox (fst (processEnqueuedUpdates exConfig
          ((exCollab 1300 1300 1300)\<lparr>newImages := [1180], movieImages := [1000, 1060, 1120, 1180]\<rparr>)
          (fst (processEnqueuedUpdates exConfig (exCollab 1200 1200 1200) exState))))
       = [Pubsub ''cam1'' 1000 ''mov,crop'', Pubsub ''cam1'' 1000 ''mov,mov,crop'']"
  by (simp add: ex_defs run_defs pop_cases enqueue_cases isDuplicateDetection_iff)

text \<open>
  C6, amended. When a popped entry has a stored event and new images, and the movie is
  regenerated, the update is final exactly when more than two images of the sequence are
  later than the detection. The notification is published once in this call exactly when
  the alert gate holds on the stored data of the event, for a final update and for one that
  is not final alike. A final update leaves the queue without the entry; one that is not
  final puts the entry back with the new final timestamp, as long as the enqueue happens
  no later than seven minutes after the detection, and drops it after that.
\<close>

theorem movie_update_notification:
  "fst (popFireUpdate (nowPop W) (fireUpdateQueue st)) = Some ev
   \<and> queryDetections (dbase st) (cameraID ev) (timestamp ev) = Inr (Some dd)
   \<and> checkNewImage (newImages W) (finalTimestamp ev)
   \<and> detectionImage W \<and> movieID W \<noteq> []
   \<and> fst (genMovie (movieImages W) (timestamp ev)) \<noteq> 0
   \<and> sourcePolygons dd \<noteq> []
   \<longrightarrow>
     updateMovie W (timestamp ev) =
       Some (movieID W, fst (genMovie (movieImages W) (timestamp ev)),
             length (filter (\<lambda>t. timestamp ev < t) (movieImages W)) > 2)
     \<and> outbox (fst (processEnqueuedUpdates C W st)) =
         outbox st @
           (if publishAlert C (dbase st) (cameraID ev) (FireHeading dd) (AngularWidth dd)
                 (timestamp ev) (WeatherScore dd) (last (sourcePolygons dd)) (rxBurns W)
                 (protoNum (proto C))
            then [Pubsub (cameraID ev) (timestamp ev)
                    (getUrlForFile W (movieID W) @ '','' @ CroppedID dd)]
            else [])
     \<and> (length (filter (\<lambda>t. timestamp ev < t) (movieImages W)) > 2 \<longrightarrow>
          fireUpdateQueue (fst (processEnqueuedUpdates C W st)) = tl (fireUpdateQueue st))
     \<and> (\<not> length (filter (\<lambda>t. timestamp ev < t) (movieImages W)) > 2
          \<and> \<not> (\<exists>x \<in> set (tl (fireUpdateQueue st)).
                  cameraID x = cameraID ev \<and> timestamp x = timestamp ev)
          \<and> nowEnqueue W \<le> of_int (timestamp ev + POST_DETECTION_UPDATE_MINS * 60) \<longrightarrow>
          fireUpdateQueue (fst (processEnqueuedUpdates C W st)) =
            sort_key finalTimestamp
              (tl (fireUpdateQueue st) @
                 [ev\<lparr>finalTimestamp := fst (genMovie (movieImages W) (timestamp ev))\<rparr>]))
     \<and> (nowEnqueue W > of_int (timestamp ev + POST_DETECTION_UPDATE_MINS * 60) \<longrightarrow>
          fireUpdateQueue (fst (processEnqueuedUpdates C W st)) = tl (fireUpdateQueue st))"
proof (intro impI, elim conjE)
  assume pop: "fst (popFireUpdate (nowPop W) (fireUpdateQueue st)) = Some ev"
    and q: "queryDetections (dbase st) (cameraID ev) (timestamp ev) = Inr (Some dd)"
    and new: "checkNewImage (newImages W) (finalTimestamp ev)"
    and img: "detectionImage W"
    and mov: "movieID W \<noteq> []"
    and fin: "fst (genMovie (movieImages W) (timestamp ev)) \<noteq> 0"
    and src: "sourcePolygons dd \<noteq> []"
  note step = process_update [OF pop q new img mov fin src, of C]
  have a: "updateMovie W (timestamp ev) =
       Some (movieID W, fst (genMovie (movieImages W) (timestamp ev)),
             length (filter (\<lambda>t. timestamp ev < t) (movieImages W)) > 2)"
    using img by (simp add: updateMovie_def Let_def genMovie_postCount)
  have b: "outbox (fst (processEnqueuedUpdates C W st)) =
         outbox st @
           (if publishAlert C (dbase st) (cameraID ev) (FireHeading dd) (AngularWidth dd)
                 (timestamp ev) (WeatherScore dd) (last (sourcePolygons dd)) (rxBurns W)
                 (protoNum (proto C))
            then [Pubsub (cameraID ev) (timestamp ev)
                    (getUrlForFile W (movieID W) @ '','' @ CroppedID dd)]
            else [])"
    unfolding step by (simp add: requeue_fields)
  have c: "length (filter (\<lambda>t. timestamp ev < t) (movieImages W)) > 2 \<longrightarrow>
          fireUpdateQueue (fst (processEnqueuedUpdates C W st)) = tl (fireUpdateQueue st)"
    unfolding step by (simp add: genMovie_postCount requeue_False)
  have d: "\<not> length (filter (\<lambda>t. timestamp ev < t) (movieImages W)) > 2
          \<and> \<not> (\<exists>x \<in> set (tl (fireUpdateQueue st)).
                  cameraID x = cameraID ev \<and> timestamp x = timestamp ev)
          \<and> nowEnqueue W \<le> of_int (timestamp ev + POST_DETECTION_UPDATE_MINS * 60) \<longrightarrow>
          fireUpdateQueue (fst (processEnqueuedUpdates C W st)) =
            sort_key finalTimestamp
              (tl (fireUpdateQueue st) @
                 [ev\<lparr>finalTimestamp := fst (genMovie (movieImages W) (timestamp ev))\<rparr>])"
    unfolding step
    by (auto simp: genMovie_postCount requeue_in_time POST_DETECTION_UPDATE_MINS_def)
  have e: "nowEnqueue W > of_int (timestamp ev + POST_DETECTION_UPDATE_MINS * 60) \<longrightarrow>
          fireUpdateQueue (fst (processEnqueuedUpdates C W st)) = tl (fireUpdateQueue st)"
    unfolding step by (simp add: requeue_late POST_DETECTION_UPDATE_MINS_def)
  from a b c d e show "updateMovie W (timestamp ev) =
       Some (movieID W, fst (genMovie (movieImages W) (timestamp ev)),
             length (filter (\<lambda>t. timestamp ev < t) (movieImages W)) > 2)
     \<and> outbox (fst (processEnqueuedUpdates C W st)) =
         outbox st @
           (if publishAlert C (dbase st) (cameraID ev) (FireHeading dd) (AngularWidth dd)
                 (timestamp ev) (WeatherScore dd) (last (sourcePolygons dd)) (rxBurns W)
                 (protoNum (proto C))
            then [Pubsub (cameraID ev) (timestamp ev)
                    (getUrlForFile W (movieID W) @ '','' @ CroppedID dd)]
            else [])
     \<and> (length (filter (\<lambda>t. timestamp ev < t) (movieImages W)) > 2 \<longrightarrow>
          fireUpdateQueue (fst (processEnqueuedUpdates C W st)) = tl (fireUpdateQueue st))
     \<and> (\<not> length (filter (\<lambda>t. timestamp ev < t) (movieImages W)) > 2
          \<and> \<not> (\<exists>x \<in> set (tl (fireUpdateQueue st)).
                  cameraID x = cameraID ev \<and> timestamp x = timestamp ev)
          \<and> nowEnqueue W \<le> of_int (timestamp ev + POST_DETECTION_UPDATE_MINS * 60) \<longrightarrow>
          fireUpdateQueue (fst (processEnqueuedUpdates C W st)) =
            sort_key finalTimestamp
              (tl (fireUpdateQueue st) @
                 [ev\<lparr>finalTimestamp := fst (genMovie (movieImages W) (timestamp ev))\<rparr>]))
     \<and> (nowEnqueue W > of_int (timestamp ev + POST_DETECTION_UPDATE_MINS * 60) \<longrightarrow>
          fireUpdateQueue (fst (processEnqueuedUpdates C W st)) = tl (fireUpdateQueue st))"
    by blast
qed

theorem movie_update_notification_witness:
  "fst (popFireUpdate (nowPop (exCollab 1200 1200 1200)) (fireUpdateQueue exState)) = Some exEvent
   \<and> queryDetections (dbase exState) (cameraID exEvent) (timestamp exEvent) = Inr (Some exRow)
   \<and> checkNewImage (newImages (exCollab 1200 1200 1200)) (finalTimestamp exEvent)
   \<and> updateMovie (exCollab 1200 1200 1200) (timestamp exEvent) = Some (''mov'', 1120, False)
   \<and> outbox (fst (processEnqueuedUpdates exConfig (exCollab 1200 1200 1200) exState))
       = [Pubsub ''cam1'' 1000 ''mov,crop'']
   \<and> fireUpdateQueue (fst (processEnqueuedUpdates exConfig (exCollab 1200 1200 1200) exState))
       = [exEvent\<lparr>finalTimestamp := 1120\<rparr>]"
  using movie_update_notification [of "exCollab 1200 1200 1200" exState exEvent exRow exConfig]
  by (simp add: ex_defs run_defs pop_cases isDuplicateDetection_iff POST_DETECTION_UPDATE_MINS_def)

section \<open>Lemmas on the acceptance of a detection\<close>




lemma areaOf_updateDetectionsDB:
  "map areaOf (updateDetectionsDB rows cam ts u1 u2 u3) = map areaOf rows"
  unfolding updateDetectionsDB_def areaOf_def by (induction rows) auto

lemma areaOf_updateDBMovie:
  "map areaOf (updateDBMovie rows cam ts u) = map areaOf rows"
  unfolding updateDBMovie_def areaOf_def by (induction rows) auto

lemma keys_updateDetectionsDB:
  "map (\<lambda>r. (CameraName r, Timestamp r)) (updateDetectionsDB rows cam ts u1 u2 u3)
     = map (\<lambda>r. (CameraName r, Timestamp r)) rows"
  unfolding updateDetectionsDB_def by (induction rows) auto

lemma fireDetectedStored_effects:
  "map areaOf (detections (dbase (fst (fireDetectedStored C W st cam hdg ts seg view poly srcs w))))
     = map areaOf (detections (dbase st)) @ [(poly, srcs)]"
  "map (\<lambda>r. (CameraName r, Timestamp r))
       (detections (dbase (fst (fireDetectedStored C W st cam hdg ts seg view poly srcs w))))
     = map (\<lambda>r. (CameraName r, Timestamp r)) (detections (dbase st)) @ [(cam, ts)]"
  unfolding fireDetectedStored_def Let_def
  by (auto simp: areaOf_updateDetectionsDB keys_updateDetectionsDB areaOf_def insertDetectionsDB_def
        split: sum.splits)




lemma fireDetected_areas:
  "map areaOf (detections (dbase (fst (fireDetected C W st cam hdg ts seg))))
     = map areaOf (detections (dbase st))
   \<or> (\<exists>view fa. consensusArea (geo C) (dbase st) ts view = Inr fa
         \<and> map areaOf (detections (dbase (fst (fireDetected C W st cam hdg ts seg))))
             = map areaOf (detections (dbase st)) @ [fa])"
  unfolding fireDetected_def
  by (auto simp: fireDetectedStored_effects split: option.splits sum.splits)

lemmas det_defs = fireDetected_def fireDetectedStored_def consensusArea_def
  intersectRecentDetections_def getRecentDetections_def intersectLand_def
  getPolygonIntersection_def truthy_def json_loads_polygon_def json_loads_polygons_def
  checkWeatherInfo_def getCentroid_def genAnnotatedMaps_def genAnnotatedMap_def
  drawPolyLatLong_def insertDetectionsDB_def insertAlertsDB_def updateDetectionsDB_def
  publishAlert_def isProto_def isProto_bool_def isProto_int_def sameLocation_def
  compatibleCode_def areaOf_def Let_def

lemma recent_desc:
  "i \<le> j \<Longrightarrow> j < length (getRecentDetections d ts) \<Longrightarrow>
     SortId (getRecentDetections d ts ! j) \<le> SortId (getRecentDetections d ts ! i)"
proof -
  assume ij: "i \<le> j" and j: "j < length (getRecentDetections d ts)"
  have "sorted (map (\<lambda>r. - SortId r) (getRecentDetections d ts))"
    unfolding getRecentDetections_def by (rule sorted_sort_key)
  then have "map (\<lambda>r. - SortId r) (getRecentDetections d ts) ! i
               \<le> map (\<lambda>r. - SortId r) (getRecentDetections d ts) ! j"
    using ij j by (simp add: sorted_iff_nth_mono del: nth_map)
  then show ?thesis using ij j by simp
qed

lemma scan_first:
  "i < length rows \<Longrightarrow> polygon (rows ! i) \<noteq> None \<Longrightarrow> None \<notin> set (sourcePolygons (rows ! i)) \<Longrightarrow>
   getPolygonIntersection G t (polygon (rows ! i)) = Inr p \<Longrightarrow> truthy p \<Longrightarrow>
   (\<forall>j < i. polygon (rows ! j) \<noteq> None
        \<and> (\<exists>q. getPolygonIntersection G t (polygon (rows ! j)) = Inr q \<and> \<not> truthy q)) \<Longrightarrow>
     scanDetections G t rows = Inr (Some (p, sourcePolygons (rows ! i)))"
proof (induction rows arbitrary: i)
  case Nil
  then show ?case by simp
next
  case (Cons r rows)
  show ?case
  proof (cases i)
    case 0
    with Cons.prems show ?thesis
      by (auto simp: json_loads_polygon_def json_loads_polygons_def)
  next
    case (Suc k)
    with Cons.prems have k: "k < length rows" "polygon (rows ! k) \<noteq> None"
      "None \<notin> set (sourcePolygons (rows ! k))"
      "getPolygonIntersection G t (polygon (rows ! k)) = Inr p" "truthy p"
      "\<forall>j < k. polygon (rows ! j) \<noteq> None
        \<and> (\<exists>q. getPolygonIntersection G t (polygon (rows ! j)) = Inr q \<and> \<not> truthy q)"
      by auto
    from Cons.prems Suc have "polygon r \<noteq> None
        \<and> (\<exists>q. getPolygonIntersection G t (polygon r) = Inr q \<and> \<not> truthy q)"
      by auto
    with Cons.IH [OF k] Suc show ?thesis
      by (auto simp: json_loads_polygon_def)
  qed
qed

lemma intersectSources_snoc:
  "srcs \<noteq> [] \<Longrightarrow> intersectSources G (srcs @ [v]) =
     (case intersectSources G srcs of
        None \<Rightarrow> None
      | Some p \<Rightarrow>
          (case getPolygonIntersection G v p of
             Inl e \<Rightarrow> None
           | Inr q \<Rightarrow> (if truthy q then Some q else None)))"
  unfolding intersectSources_def by (cases "rev srcs") auto

lemma intersectSources_single: "intersectSources G [v] = Some v"
  by (simp add: intersectSources_def)

lemma intersectSources_nonempty: "intersectSources G srcs = Some p \<Longrightarrow> srcs \<noteq> []"
  by (auto simp: intersectSources_def)

lemma consensusArea_invariant:
  assumes "\<forall>r \<in> set (detections d). consensusRow G r"
    and "consensusArea G d ts v = Inr fa"
  shows "intersectSources G (snd fa) = Some (fst fa)"
proof (cases "intersectRecentDetections G d ts v")
  case (Inl e)
  with assms(2) show ?thesis by (simp add: consensusArea_def)
next
  case (Inr res)
  show ?thesis
  proof (cases res)
    case None
    with Inr assms(2) show ?thesis
      by (auto simp: consensusArea_def intersectSources_single)
  next
    case (Some info)
    obtain p srcs where info: "info = (p, srcs)" by (cases info)
    with Inr Some obtain r where r: "r \<in> set (getRecentDetections d ts)"
      "getPolygonIntersection G v (polygon r) = Inr p" "truthy p" "srcs = sourcePolygons r"
      unfolding intersectRecentDetections_def using scanDetections_Some by blast
    then have "r \<in> set (detections d)" using set_getRecentDetections by blast
    with assms(1) have inv: "intersectSources G srcs = Some (polygon r)"
      using r(4) by (simp add: consensusRow_def)
    then have "srcs \<noteq> []" by (rule intersectSources_nonempty)
    then show ?thesis
      using Inr Some info inv r assms(2)
      by (auto simp: consensusArea_def intersectSources_snoc)
  qed
qed

lemma processEnqueuedUpdates_areas:
  "map areaOf (detections (dbase (fst (processEnqueuedUpdates C W st))))
     = map areaOf (detections (dbase st))"
  unfolding processEnqueuedUpdates_def Let_def
  by (auto simp: requeue_fields areaOf_updateDBMovie split: option.splits sum.splits)

lemma consensusRow_areaOf:
  "(\<forall>r \<in> set rows. consensusRow G r) \<longleftrightarrow>
     (\<forall>a \<in> set (map areaOf rows). intersectSources G (snd a) = Some (fst a))"
  by (simp add: consensusRow_def areaOf_def)

lemma fireDetected_invariant:
  assumes "\<forall>r \<in> set (detections (dbase st)). consensusRow (geo C) r"
  shows "\<forall>r \<in> set (detections (dbase (fst (fireDetected C W st cam hdg ts seg)))). consensusRow (geo C) r"
  using fireDetected_areas [of C W st cam hdg ts seg]
proof
  assume "map areaOf (detections (dbase (fst (fireDetected C W st cam hdg ts seg))))
     = map areaOf (detections (dbase st))"
  then show ?thesis using assms unfolding consensusRow_areaOf by simp
next
  assume "\<exists>view fa. consensusArea (geo C) (dbase st) ts view = Inr fa
         \<and> map areaOf (detections (dbase (fst (fireDetected C W st cam hdg ts seg))))
             = map areaOf (detections (dbase st)) @ [fa]"
  then obtain view fa where fa: "consensusArea (geo C) (dbase st) ts view = Inr fa"
    "map areaOf (detections (dbase (fst (fireDetected C W st cam hdg ts seg))))
             = map areaOf (detections (dbase st)) @ [fa]"
    by blast
  have "intersectSources (geo C) (snd fa) = Some (fst fa)"
    using consensusArea_invariant [OF assms fa(1)] .
  then show ?thesis using assms unfolding consensusRow_areaOf fa(2) by simp
qed

lemma processEnqueuedUpdates_invariant:
  assumes "\<forall>r \<in> set (detections (dbase st)). consensusRow (geo C) r"
  shows "\<forall>r \<in> set (detections (dbase (fst (processEnqueuedUpdates C W st)))). consensusRow (geo C) r"
  using assms unfolding consensusRow_areaOf processEnqueuedUpdates_areas .

section \<open>A rejected gate (C8)\<close>



section \<open>Consensus merging (C1)\<close>

text \<open>
  Where the scan of the recent detections returns, it does what the claim says: the rows
  are those later than fifteen minutes before the observation, in descending order of sort
  id; the first row whose polygon has an intersection with the new view polygon that is not
  null gives the polygon of the new event, and its source polygons followed by the new view
  polygon give the sources; without such a row the event has its own view polygon as its
  only source. Every stored polygon stays the intersection of its source polygons.
\<close>

lemma consensus_merge_normal:
  "set (getRecentDetections d ts) = {r \<in> set (detections d). ts - 15 * 60 < Timestamp r}
   \<and> (\<forall>i j. i \<le> j \<and> j < length (getRecentDetections d ts) \<longrightarrow>
         SortId (getRecentDetections d ts ! j) \<le> SortId (getRecentDetections d ts ! i))
   \<and> ((\<forall>r \<in> set (getRecentDetections d ts). polygon r \<noteq> None
           \<and> (\<exists>q. getPolygonIntersection G view (polygon r) = Inr q \<and> \<not> truthy q))
        \<longrightarrow> consensusArea G d ts view = Inr (view, [view]))
   \<and> (\<forall>i p. i < length (getRecentDetections d ts)
          \<and> polygon (getRecentDetections d ts ! i) \<noteq> None
          \<and> None \<notin> set (sourcePolygons (getRecentDetections d ts ! i))
          \<and> getPolygonIntersection G view (polygon (getRecentDetections d ts ! i)) = Inr p \<and> truthy p
          \<and> (\<forall>j < i. polygon (getRecentDetections d ts ! j) \<noteq> None
                \<and> (\<exists>q. getPolygonIntersection G view (polygon (getRecentDetections d ts ! j)) = Inr q
                      \<and> \<not> truthy q))
        \<longrightarrow> consensusArea G d ts view
              = Inr (p, sourcePolygons (getRecentDetections d ts ! i) @ [view]))
   \<and> ((\<forall>r \<in> set (detections (dbase st)). consensusRow (geo C) r) \<longrightarrow>
        (\<forall>r \<in> set (detections (dbase (fst (fireDetected C W st cam hdg t seg)))). consensusRow (geo C) r))
   \<and> ((\<forall>r \<in> set (detections (dbase st)). consensusRow (geo C) r) \<longrightarrow>
        (\<forall>r \<in> set (detections (dbase (fst (processEnqueuedUpdates C W st)))). consensusRow (geo C) r))"
proof -
  have 1: "set (getRecentDetections d ts) = {r \<in> set (detections d). ts - 15 * 60 < Timestamp r}"
    by (rule set_getRecentDetections)
  have 2: "\<forall>i j. i \<le> j \<and> j < length (getRecentDetections d ts) \<longrightarrow>
         SortId (getRecentDetections d ts ! j) \<le> SortId (getRecentDetections d ts ! i)"
    using recent_desc by blast
  have 3: "(\<forall>r \<in> set (getRecentDetections d ts). polygon r \<noteq> None
           \<and> (\<exists>q. getPolygonIntersection G view (polygon r) = Inr q \<and> \<not> truthy q))
        \<longrightarrow> consensusArea G d ts view = Inr (view, [view])"
  proof
    assume "\<forall>r \<in> set (getRecentDetections d ts). polygon r \<noteq> None
           \<and> (\<exists>q. getPolygonIntersection G view (polygon r) = Inr q \<and> \<not> truthy q)"
    then have "scanDetections G view (getRecentDetections d ts) = Inr None"
      by (rule scanDetections_None)
    then show "consensusArea G d ts view = Inr (view, [view])"
      by (simp add: consensusArea_def intersectRecentDetections_def)
  qed
  have 4: "\<forall>i p. i < length (getRecentDetections d ts)
          \<and> polygon (getRecentDetections d ts ! i) \<noteq> None
          \<and> None \<notin> set (sourcePolygons (getRecentDetections d ts ! i))
          \<and> getPolygonIntersection G view (polygon (getRecentDetections d ts ! i)) = Inr p \<and> truthy p
          \<and> (\<forall>j < i. polygon (getRecentDetections d ts ! j) \<noteq> None
                \<and> (\<exists>q. getPolygonIntersection G view (polygon (getRecentDetections d ts ! j)) = Inr q
                      \<and> \<not> truthy q))
        \<longrightarrow> consensusArea G d ts view
              = Inr (p, sourcePolygons (getRecentDetections d ts ! i) @ [view])"
  proof (intro allI impI, elim conjE)
    fix i p
    assume "i < length (getRecentDetections d ts)"
      "polygon (getRecentDetections d ts ! i) \<noteq> None"
      "None \<notin> set (sourcePolygons (getRecentDetections d ts ! i))"
      "getPolygonIntersection G view (polygon (getRecentDetections d ts ! i)) = Inr p" "truthy p"
      "\<forall>j < i. polygon (getRecentDetections d ts ! j) \<noteq> None
                \<and> (\<exists>q. getPolygonIntersection G view (polygon (getRecentDetections d ts ! j)) = Inr q
                      \<and> \<not> truthy q)"
    then have "scanDetections G view (getRecentDetections d ts)
       = Inr (Some (p, sourcePolygons (getRecentDetections d ts ! i)))"
      by (rule scan_first)
    then show "consensusArea G d ts view
              = Inr (p, sourcePolygons (getRecentDetections d ts ! i) @ [view])"
      by (simp add: consensusArea_def intersectRecentDetections_def)
  qed
  have 5: "(\<forall>r \<in> set (detections (dbase st)). consensusRow (geo C) r) \<longrightarrow>
        (\<forall>r \<in> set (detections (dbase (fst (fireDetected C W st cam hdg t seg)))). consensusRow (geo C) r)"
    using fireDetected_invariant by blast
  have 6: "(\<forall>r \<in> set (detections (dbase st)). consensusRow (geo C) r) \<longrightarrow>
        (\<forall>r \<in> set (detections (dbase (fst (processEnqueuedUpdates C W st)))). consensusRow (geo C) r)"
    using processEnqueuedUpdates_invariant by blast
  show ?thesis
    apply (intro conjI)
    using 1 apply blast
    using 2 apply blast
    using 3 apply blast
    using 4 apply blast
    using 5 apply blast
    using 6 apply blast
    done
qed

text \<open>
  C1. The scan can fail where the claim promises a result. An observation whose view lies
  off the land is stored with the polygon \<open>None\<close>, written as the text \<open>None\<close>; the call
  that stores it ends with a TypeError in the drawing of the map, after the row is written.
  The next observation, 100 seconds later, has a view that intersects the polygon of the
  older stored event in the square from (5, 5) to (10, 10); the scan reads the newest row
  first, \<open>json.loads\<close> fails on its polygon, and \<open>fireDetected\<close> ends with that
  exception and stores nothing, where the claim has the new event take the intersection and
  two source polygons. With a library that returns an intersection in several parts, the
  scan fails with an AttributeError instead.
\<close>

theorem consensus_scan_raises:
  "fireDetected exConfig ((exCollab 1300 1300 1300)\<lparr>triangle := [(200, 200), (300, 300)]\<rparr>)
        exState ''cam2'' 90 1290 exSegment
     = (exState\<lparr>dbase := exDb\<lparr>detections :=
          [exRow,
           insertDetectionsDB (proto exConfig) exDb ''cam2'' 1290 [] [] []
             (exSegment\<lparr>weatherScore := Some 1\<rparr>) None [None] 1300 90 10]\<rparr>\<rparr>,
        Some TypeError)
   \<and> getPolygonIntersection boxes (Some [(5, 5), (20, 20)]) (polygon exRow) = Inr (Some [(5, 5), (10, 10)])
   \<and> fireDetected exConfig (exCollab 1400 1400 1400)
        (fst (fireDetected exConfig ((exCollab 1300 1300 1300)\<lparr>triangle := [(200, 200), (300, 300)]\<rparr>)
                exState ''cam2'' 90 1290 exSegment))
        ''cam3'' 45 1390 exSegment
     = (fst (fireDetected exConfig ((exCollab 1300 1300 1300)\<lparr>triangle := [(200, 200), (300, 300)]\<rparr>)
                exState ''cam2'' 90 1290 exSegment),
        Some JSONDecodeError)
   \<and> consensusArea boxesMulti exDb 1100 (Some [(5, 5), (20, 20)]) = Inl AttributeError
   \<and> consensusArea boxes exDb 1100 (Some [(5, 5), (20, 20)])
       = Inr (Some [(5, 5), (10, 10)], [Some [(0, 0), (10, 10)], Some [(5, 5), (20, 20)]])"
  by (simp add: ex_defs det_defs enqueue_cases isDuplicateDetection_iff py_int_def round4_def)

end
